theory Spec2Isabelle
  imports Complex_Main "HOL-Library.AList"
begin

section \<open>Data model (models.py)\<close>

text \<open>
  Python floats are modelled as \<^typ>\<open>real\<close> (exact arithmetic, no rounding), Python
  ints as \<^typ>\<open>int\<close>.  A Python dict is an association list in insertion order with
  distinct keys: \<open>d[k]\<close> is \<^const>\<open>map_of\<close>, \<open>d[k] = v\<close> is \<^const>\<open>AList.update\<close>
  (an existing key keeps its place, a new key goes to the end), \<open>del d[k]\<close> is
  \<^const>\<open>AList.delete\<close>, \<open>d.values()\<close> is \<open>map snd\<close>, and a change to the object stored
  under a key is \<^const>\<open>AList.map_entry\<close>.  The fields \<open>x\<close>, \<open>y\<close>,
  \<open>level\<close> occur in several classes; they carry the class as a prefix here.
\<close>

datatype SkillType = WORKER | BRAINER | FIXER

datatype BuildingType = CELL | BIO | TENT | STUDY | MUSIC | CAMP

datatype NanoState = IDLE | WORKING | SLEEPING | LEARNING | TRAINING | MOVING | HAPPY_TIME

record Resource =
  eu :: real
  credits :: real
  know :: real
  milint :: real
  surge_capacitor :: real
  work_power :: real
  sell_rate :: real
  sell_floor :: real

record Cell =
  cell_number :: int
  cell_x :: int
  cell_y :: int
  cell_level :: int
  active :: bool
  stored_energy :: real

record Building =
  btype :: BuildingType
  bld_x :: int
  bld_y :: int
  bld_level :: int
  occupied :: bool
  workers :: "int list"
  capacity :: int
  building_id :: "int option"

subsection \<open>Resource\<close>

definition Resource_init :: Resource where
  "Resource_init = \<lparr>eu = 0, credits = 1000, know = 0, milint = 0, surge_capacitor = 0,
     work_power = 0.1, sell_rate = 1000, sell_floor = 10\<rparr>"

definition add_eu :: "Resource \<Rightarrow> real \<Rightarrow> Resource" where
  "add_eu r amount = r\<lparr>surge_capacitor := surge_capacitor r + amount\<rparr>"

definition drain_eu :: "Resource \<Rightarrow> real \<Rightarrow> bool \<times> Resource" where
  "drain_eu r amount =
     (if surge_capacitor r \<ge> amount
      then (True, r\<lparr>surge_capacitor := surge_capacitor r - amount\<rparr>)
      else (False, r))"

definition sell_eu :: "Resource \<Rightarrow> real \<Rightarrow> bool \<times> Resource" where
  "sell_eu r amount =
     (if surge_capacitor r \<ge> amount
      then (let r1 = r\<lparr>surge_capacitor := surge_capacitor r - amount\<rparr>;
                credits_earned = amount * sell_rate r1;
                r2 = r1\<lparr>credits := credits r1 + credits_earned\<rparr>
            in (True, r2\<lparr>sell_rate := max (sell_rate r2 * 0.9) (sell_floor r2)\<rparr>))
      else (False, r))"

definition spend_credits :: "Resource \<Rightarrow> real \<Rightarrow> bool \<times> Resource" where
  "spend_credits r amount =
     (if credits r \<ge> amount
      then (True, r\<lparr>credits := credits r - amount\<rparr>)
      else (False, r))"

definition dissipate_energy :: "Resource \<Rightarrow> nat \<Rightarrow> real \<Rightarrow> Resource" where
  "dissipate_energy r cells_count dt =
     (if cells_count = 0
      then (let dissipation_rate =
                  (if surge_capacitor r \<le> 1.5 then 0.001 * dt
                   else surge_capacitor r * 0.005 * dt)
            in r\<lparr>surge_capacitor := max 0 (surge_capacitor r - dissipation_rate)\<rparr>)
      else r)"

subsection \<open>Cell\<close>

definition Cell_init :: "int \<Rightarrow> int \<Rightarrow> int \<Rightarrow> Cell" where
  "Cell_init n x y = \<lparr>cell_number = n, cell_x = x, cell_y = y, cell_level = 1,
     active = True, stored_energy = 0\<rparr>"

definition get_purchase_cost :: "Cell \<Rightarrow> real \<times> real" where
  "get_purchase_cost c = (real_of_int (cell_number c), 100)"

definition get_upgrade_cost :: "Cell \<Rightarrow> real \<times> real" where
  "get_upgrade_cost c =
     (real_of_int (cell_number c * cell_level c),
      real_of_int (cell_number c * cell_level c) * 100)"

subsection \<open>Building\<close>

fun get_capacity :: "BuildingType \<Rightarrow> int" where
  "get_capacity BIO = 1"
| "get_capacity TENT = 2"
| "get_capacity STUDY = 3"
| "get_capacity MUSIC = 5"
| "get_capacity CAMP = 4"
| "get_capacity CELL = 1"

fun get_build_cost :: "BuildingType \<Rightarrow> real \<times> real" where
  "get_build_cost CELL = (1, 100)"
| "get_build_cost BIO = (10, 1000)"
| "get_build_cost TENT = (10, 100)"
| "get_build_cost STUDY = (10, 100)"
| "get_build_cost MUSIC = (10, 500)"
| "get_build_cost CAMP = (10, 250)"

definition Building_init :: "BuildingType \<Rightarrow> int \<Rightarrow> int \<Rightarrow> Building" where
  "Building_init t x y = \<lparr>btype = t, bld_x = x, bld_y = y, bld_level = 1, occupied = False,
     workers = [], capacity = get_capacity t, building_id = None\<rparr>"

definition can_accept_worker :: "Building \<Rightarrow> bool" where
  "can_accept_worker b = (int (length (workers b)) < capacity b)"

definition add_worker :: "Building \<Rightarrow> int \<Rightarrow> bool \<times> Building" where
  "add_worker b nano_id =
     (if can_accept_worker b \<and> nano_id \<notin> set (workers b)
      then (True, b\<lparr>workers := workers b @ [nano_id]\<rparr>)
      else (False, b))"

text \<open>\<open>list.remove\<close> deletes the first occurrence only: \<^const>\<open>remove1\<close>.\<close>

definition remove_worker :: "Building \<Rightarrow> int \<Rightarrow> bool \<times> Building" where
  "remove_worker b nano_id =
     (if nano_id \<in> set (workers b)
      then (True, b\<lparr>workers := remove1 nano_id (workers b)\<rparr>)
      else (False, b))"

subsection \<open>Nano\<close>

text \<open>
  The fields of \<open>Nano\<close> that the simulation reads or writes.  The name, the sprite
  direction, the animation frame and timer and the selection flag only feed the display
  and are left out.
\<close>

record Nano =
  nano_id :: int
  age :: int
  max_lifespan :: int
  skills :: "SkillType \<Rightarrow> real"
  speed :: int
  wage :: real
  happy :: real
  health :: real
  brain :: real
  force :: real
  nano_x :: real
  nano_y :: real
  target_x :: real
  target_y :: real
  moving :: bool
  nstate :: NanoState
  assigned_building :: "int option"
  home_building :: "int option"
  current_building :: "int option"
  work_hours :: int
  sleep_hours :: int
  other_hours :: int
  meals_today :: int
  inside_building :: bool
  activity_timer :: real
  activity_duration :: real
  hours_without_food :: int
  hours_homeless :: int

subsection \<open>GameState\<close>

record GameState =
  resources :: Resource
  cells :: "(int \<times> Cell) list"
  buildings :: "(int \<times> Building) list"
  nanos :: "(int \<times> Nano) list"
  game_hour :: int
  game_minute :: int
  game_day :: int
  game_month :: int
  game_year :: int
  time_accumulator :: real
  last_year :: int
  next_building_id :: int

text \<open>The state after \<open>GameState.__init__\<close> (the hire candidates are not modelled).\<close>

definition GameState_init :: GameState where
  "GameState_init = \<lparr>resources = Resource_init, cells = [], buildings = [], nanos = [],
     game_hour = 0, game_minute = 0, game_day = 0, game_month = 0, game_year = 0,
     time_accumulator = 0, last_year = 0, next_building_id = 1\<rparr>"

definition get_total_system_capacity :: "GameState \<Rightarrow> real" where
  "get_total_system_capacity g = (\<Sum>c\<leftarrow>map snd (cells g). real_of_int (cell_level c))"

definition get_total_cell_energy :: "GameState \<Rightarrow> real" where
  "get_total_cell_energy g = (\<Sum>c\<leftarrow>map snd (cells g). stored_energy c)"

definition get_total_system_energy :: "GameState \<Rightarrow> real" where
  "get_total_system_energy g =
     foldl (\<lambda>total c. total + stored_energy c) (surge_capacitor (resources g))
       (map snd (cells g))"

text \<open>
  The loop of \<open>drain_cell_energy\<close>: it walks the cells in dict order, carries
  \<open>remaining_to_drain\<close> and stops (\<open>break\<close>) once nothing remains.
\<close>

fun drain_loop :: "(int \<times> Cell) list \<Rightarrow> real \<Rightarrow> (int \<times> Cell) list \<times> real" where
  "drain_loop [] remaining = ([], remaining)"
| "drain_loop ((k, c) # cs) remaining =
     (if remaining \<le> 0 then ((k, c) # cs, remaining)
      else if stored_energy c > 0
      then (let drain_from_cell = min (stored_energy c) remaining;
                (cs', r') = drain_loop cs (remaining - drain_from_cell)
            in ((k, c\<lparr>stored_energy := stored_energy c - drain_from_cell\<rparr>) # cs', r'))
      else (let (cs', r') = drain_loop cs remaining in ((k, c) # cs', r')))"

definition drain_cell_energy :: "GameState \<Rightarrow> real \<Rightarrow> bool \<times> GameState" where
  "drain_cell_energy g amount =
     (if length (cells g) = 0 then (False, g)
      else if get_total_cell_energy g < amount then (False, g)
      else (let (cs', remaining) = drain_loop (cells g) amount
            in (remaining \<le> 0.001, g\<lparr>cells := cs'\<rparr>)))"

definition sell_cell_energy :: "GameState \<Rightarrow> real \<Rightarrow> bool \<times> GameState" where
  "sell_cell_energy g amount =
     (case drain_cell_energy g amount of (ok, g1) \<Rightarrow>
        if ok
        then (let r = resources g1;
                  current_rate = sell_rate r;
                  credits_earned = amount * current_rate;
                  r1 = r\<lparr>credits := credits r + credits_earned\<rparr>;
                  r2 = r1\<lparr>sell_rate := max (sell_rate r1 * 0.9) (sell_floor r1)\<rparr>
              in (True, g1\<lparr>resources := r2\<rparr>))
        else (False, g1))"

definition work_button_pressed :: "GameState \<Rightarrow> GameState" where
  "work_button_pressed g =
     (let r = resources g in
      if length (cells g) > 0
      then (let total_capacity = get_total_system_capacity g;
                current_surge_energy = surge_capacitor r
            in if current_surge_energy < total_capacity
               then (let energy_to_add = min (work_power r) (total_capacity - current_surge_energy)
                     in if energy_to_add > 0 then g\<lparr>resources := add_eu r energy_to_add\<rparr> else g)
               else g)
      else (if surge_capacitor r < 1.5
            then (let energy_to_add = min (work_power r) (1.5 - surge_capacitor r)
                  in if energy_to_add > 0 then g\<lparr>resources := add_eu r energy_to_add\<rparr> else g)
            else g))"

text \<open>
  The energy part of a purchase: from the cells when cells exist, from the surge
  capacitor otherwise.  \<open>build_cell\<close>, \<open>upgrade_cell\<close> and \<open>build_building\<close> each
  contain this block verbatim.
\<close>

definition pay_eu :: "GameState \<Rightarrow> real \<Rightarrow> bool \<times> GameState" where
  "pay_eu g cost_eu =
     (let has_cells = length (cells g) > 0 in
      if has_cells then drain_cell_energy g cost_eu
      else (case drain_eu (resources g) cost_eu of (ok, r) \<Rightarrow> (ok, g\<lparr>resources := r\<rparr>)))"

text \<open>
  The credit part and the decision that follows it, shared by the three operations:
  \<open>spend_credits\<close>, then either the purchase (\<open>commit\<close>) or the refund of the credits
  when the credits were taken.
\<close>

definition settle :: "GameState \<Rightarrow> bool \<Rightarrow> real \<Rightarrow> (GameState \<Rightarrow> GameState) \<Rightarrow> bool \<times> GameState" where
  "settle g1 can_afford_eu cost_credits commit =
     (case spend_credits (resources g1) cost_credits of (can_afford_credits, r2) \<Rightarrow>
        (let g2 = g1\<lparr>resources := r2\<rparr> in
         if can_afford_eu \<and> can_afford_credits then (True, commit g2)
         else if can_afford_credits
              then (False, g2\<lparr>resources := r2\<lparr>credits := credits r2 + cost_credits\<rparr>\<rparr>)
              else (False, g2)))"

definition build_cell :: "GameState \<Rightarrow> int \<Rightarrow> int \<Rightarrow> bool \<times> GameState" where
  "build_cell g x y =
     (let next_cell_number = int (length (cells g)) + 1 in
      if next_cell_number > 100 then (False, g)
      else (case get_purchase_cost (Cell_init next_cell_number x y) of (cost_eu, cost_credits) \<Rightarrow>
             (case pay_eu g cost_eu of (can_afford_eu, g1) \<Rightarrow>
                settle g1 can_afford_eu cost_credits
                  (\<lambda>g2. g2\<lparr>cells := AList.update next_cell_number
                                      (Cell_init next_cell_number x y) (cells g2)\<rparr>))))"

definition upgrade_cell :: "GameState \<Rightarrow> int \<Rightarrow> bool \<times> GameState" where
  "upgrade_cell g n =
     (case map_of (cells g) n of
        None \<Rightarrow> (False, g)
      | Some cell \<Rightarrow>
          if cell_level cell \<ge> 100 then (False, g)
          else (case get_upgrade_cost cell of (cost_eu, cost_credits) \<Rightarrow>
                 (case pay_eu g cost_eu of (can_afford_eu, g1) \<Rightarrow>
                    settle g1 can_afford_eu cost_credits
                      (\<lambda>g2. g2\<lparr>cells := AList.map_entry n
                                  (\<lambda>c. c\<lparr>cell_level := cell_level c + 1\<rparr>) (cells g2)\<rparr>))))"

definition build_building :: "GameState \<Rightarrow> BuildingType \<Rightarrow> int \<Rightarrow> int \<Rightarrow> bool \<times> GameState" where
  "build_building g building_type x y =
     (let building = Building_init building_type x y in
      case get_build_cost (btype building) of (cost_eu, cost_credits) \<Rightarrow>
        (case pay_eu g cost_eu of (can_afford_eu, g1) \<Rightarrow>
           settle g1 can_afford_eu cost_credits
             (\<lambda>g2. g2\<lparr>buildings := AList.update (next_building_id g2)
                          (building\<lparr>building_id := Some (next_building_id g2)\<rparr>) (buildings g2),
                       next_building_id := next_building_id g2 + 1\<rparr>)))"

text \<open>\<open>n\<close> presses of the WORK button with nothing in between.\<close>

fun manual_work_n :: "nat \<Rightarrow> GameState \<Rightarrow> GameState" where
  "manual_work_n 0 g = g"
| "manual_work_n (Suc n) g = manual_work_n n (work_button_pressed g)"

subsection \<open>Admission\<close>

definition enter_building ::
  "Nano \<Rightarrow> int \<Rightarrow> (int \<times> Building) list \<Rightarrow> bool \<times> Nano \<times> (int \<times> Building) list" where
  "enter_building n bid bs =
     (case map_of bs bid of
        None \<Rightarrow> (False, n, bs)
      | Some building \<Rightarrow>
          (case add_worker building (nano_id n) of (ok, b') \<Rightarrow>
             if ok
             then (True, n\<lparr>current_building := Some bid, inside_building := True\<rparr>,
                   AList.update bid b' bs)
             else (False, n, bs)))"

text \<open>
  \<open>exit_building\<close> tests \<open>self.current_building\<close> for truth, so the id \<open>0\<close> counts as
  no building.
\<close>

definition exit_building :: "Nano \<Rightarrow> (int \<times> Building) list \<Rightarrow> Nano \<times> (int \<times> Building) list" where
  "exit_building n bs =
     (case current_building n of
        None \<Rightarrow> (n, bs)
      | Some bid \<Rightarrow>
          if bid \<noteq> 0 \<and> map_of bs bid \<noteq> None
          then (n\<lparr>current_building := None, inside_building := False\<rparr>,
                AList.map_entry bid (\<lambda>b. snd (remove_worker b (nano_id n))) bs)
          else (n, bs))"

text \<open>A sequence of \<open>add_worker\<close> calls on one building.\<close>

fun add_workers :: "Building \<Rightarrow> int list \<Rightarrow> Building" where
  "add_workers b [] = b"
| "add_workers b (i # ids) = add_workers (snd (add_worker b i)) ids"

text \<open>A sequence of \<open>enter_building\<close> calls, each by a nano for a building id.\<close>

fun enter_buildings :: "(int \<times> Building) list \<Rightarrow> (Nano \<times> int) list \<Rightarrow> (int \<times> Building) list" where
  "enter_buildings bs [] = bs"
| "enter_buildings bs ((n, bid) # calls) =
     enter_buildings (snd (snd (enter_building n bid bs))) calls"

definition occupancy_ok :: "Building \<Rightarrow> bool" where
  "occupancy_ok b = (int (length (workers b)) \<le> capacity b \<and> distinct (workers b))"

text \<open>What admission must leave alone: the key, the type and the capacity of each building.\<close>

definition fixed_part :: "(int \<times> Building) list \<Rightarrow> (int \<times> BuildingType \<times> int) list" where
  "fixed_part bs = map (\<lambda>(k, b). (k, btype b, capacity b)) bs"

subsection \<open>Selling\<close>

datatype sell_call = Sell_eu real | Sell_cell_energy real

fun sell_amount :: "sell_call \<Rightarrow> real" where
  "sell_amount (Sell_eu a) = a"
| "sell_amount (Sell_cell_energy a) = a"

fun sell :: "GameState \<Rightarrow> sell_call \<Rightarrow> bool \<times> GameState" where
  "sell g (Sell_eu a) = (case sell_eu (resources g) a of (ok, r) \<Rightarrow> (ok, g\<lparr>resources := r\<rparr>))"
| "sell g (Sell_cell_energy a) = sell_cell_energy g a"

text \<open>Consecutive sells that all succeed; \<open>None\<close> when one of them fails.\<close>

fun sells :: "GameState \<Rightarrow> sell_call list \<Rightarrow> GameState option" where
  "sells g [] = Some g"
| "sells g (c # cs) = (case sell g c of (ok, g') \<Rightarrow> if ok then sells g' cs else None)"

text \<open>
  \<open>Nano.__init__\<close>; the three random draws (age, lifespan, speed) are arguments.  The
  start position is the centre of the play area, \<open>(620 // 2, 650 // 2)\<close>.
\<close>

definition Nano_init :: "int \<Rightarrow> int \<Rightarrow> int \<Rightarrow> int \<Rightarrow> Nano" where
  "Nano_init i a l sp = \<lparr>nano_id = i, age = a, max_lifespan = l, skills = (\<lambda>_. 1), speed = sp,
     wage = 10, happy = 100, health = 100, brain = 10, force = 10,
     nano_x = 310, nano_y = 325, target_x = 310, target_y = 325, moving = False,
     nstate = IDLE, assigned_building = None, home_building = None, current_building = None,
     work_hours = 0, sleep_hours = 0, other_hours = 0, meals_today = 0,
     inside_building = False, activity_timer = 0, activity_duration = 0,
     hours_without_food = 0, hours_homeless = 0\<rparr>"

subsection \<open>Energy flow (\<open>update_energy_system\<close>)\<close>

definition distribute_energy_to_cells :: "GameState \<Rightarrow> real \<Rightarrow> GameState" where
  "distribute_energy_to_cells g energy_amount =
     (let r = resources g in
      if energy_amount \<le> 0 then g
      else if length (cells g) = 0
      then (if surge_capacitor r < 1.5
            then (let energy_to_add = min energy_amount (1.5 - surge_capacitor r)
                  in if energy_to_add > 0 then g\<lparr>resources := add_eu r energy_to_add\<rparr> else g)
            else g)
      else (let total_capacity = get_total_system_capacity g;
                current_surge_energy = surge_capacitor r
            in if current_surge_energy < total_capacity
               then (let energy_to_add = min energy_amount (total_capacity - current_surge_energy)
                     in if energy_to_add > 0 then g\<lparr>resources := add_eu r energy_to_add\<rparr> else g)
               else g))"

text \<open>
  The transfer step.  \<open>needs_energy\<close> is the test that puts a cell on the list
  \<open>cells_needing_energy\<close>; \<open>energy_to_add\<close> is the amount the second loop computes for
  a cell of that list, counted as nothing when it is not positive; \<open>add_energy\<close> is the
  body of that loop.  The loop visits each listed cell once and changes that cell only,
  so it is a \<open>map\<close> over the dict that leaves the unlisted cells alone.
\<close>

definition needs_energy :: "Cell \<Rightarrow> bool" where
  "needs_energy c = (active c \<and> stored_energy c < real_of_int (cell_level c))"

definition energy_to_add :: "real \<Rightarrow> Cell \<Rightarrow> real" where
  "energy_to_add energy_per_cell c =
     (let space_available = real_of_int (cell_level c) - stored_energy c;
          a = min energy_per_cell space_available
      in if a > 0 then a else 0)"

definition add_energy :: "real \<Rightarrow> int \<times> Cell \<Rightarrow> int \<times> Cell" where
  "add_energy energy_per_cell = (\<lambda>(k, c). (k,
     if needs_energy c
     then c\<lparr>stored_energy := stored_energy c + energy_to_add energy_per_cell c\<rparr>
     else c))"

definition transfer_to_cells :: "GameState \<Rightarrow> real \<Rightarrow> GameState" where
  "transfer_to_cells g dt =
     (let r = resources g in
      if surge_capacitor r > 0 \<and> length (cells g) > 0
      then (let transfer_rate = 0.5 * dt;
                energy_to_transfer = min (surge_capacitor r) transfer_rate
            in if energy_to_transfer > 0
               then (let cells_needing_energy = filter needs_energy (map snd (cells g))
                     in if cells_needing_energy \<noteq> []
                        then (let energy_per_cell =
                                    energy_to_transfer / real (length cells_needing_energy);
                                  total_transferred =
                                    (\<Sum>c\<leftarrow>cells_needing_energy. energy_to_add energy_per_cell c)
                              in g\<lparr>cells := map (add_energy energy_per_cell) (cells g),
                                   resources := (if total_transferred > 0
                                      then r\<lparr>surge_capacitor := surge_capacitor r - total_transferred\<rparr>
                                      else r)\<rparr>)
                        else g)
               else g)
      else g)"

text \<open>The bleed-off of one cell above its capacity.\<close>

definition bleed_off :: "real \<Rightarrow> Cell \<Rightarrow> Cell" where
  "bleed_off dt c =
     (let cell_capacity = real_of_int (cell_level c) in
      if stored_energy c > cell_capacity
      then (let excess = stored_energy c - cell_capacity;
                bleed_rate = excess * 0.9 * dt
            in c\<lparr>stored_energy := max cell_capacity (stored_energy c - bleed_rate)\<rparr>)
      else c)"

definition work :: "Nano \<Rightarrow> Building \<Rightarrow> real" where
  "work n building =
     (if btype building = BIO then (let efficiency = skills n WORKER / 10 in 1 * efficiency)
      else 0)"

text \<open>Production of the BIO generators; the loops change the resources only.\<close>

definition bio_worker :: "real \<Rightarrow> Building \<Rightarrow> int \<Rightarrow> GameState \<Rightarrow> GameState" where
  "bio_worker dt building nid g =
     (case map_of (nanos g) nid of
        None \<Rightarrow> g
      | Some nano \<Rightarrow>
          if nstate nano = WORKING \<and> inside_building nano
          then (let eu_produced = work nano building * dt / 3600
                in if eu_produced > 0 then distribute_energy_to_cells g eu_produced else g)
          else g)"

definition bio_production :: "real \<Rightarrow> GameState \<Rightarrow> GameState" where
  "bio_production dt g =
     fold (\<lambda>building g. if btype building = BIO
                          then fold (bio_worker dt building) (workers building) g else g)
       (map snd (buildings g)) g"

definition update_energy_system :: "GameState \<Rightarrow> real \<Rightarrow> GameState" where
  "update_energy_system g dt =
     (let g1 = g\<lparr>resources := dissipate_energy (resources g) (length (cells g)) dt\<rparr>;
          g2 = transfer_to_cells g1 dt;
          g3 = g2\<lparr>cells := map (\<lambda>(k, c). (k, bleed_off dt c)) (cells g2)\<rparr>
      in bio_production dt g3)"

subsection \<open>Placement check (game.py)\<close>

text \<open>
  \<open>Game.is_valid_build_position\<close>, with the grid of the play area:
  \<open>PLAY_AREA_WIDTH = 620\<close>, \<open>PLAY_AREA_HEIGHT = 650\<close>, \<open>GRID_SIZE = 32\<close>.
\<close>

definition is_valid_build_position :: "GameState \<Rightarrow> int \<Rightarrow> int \<Rightarrow> bool" where
  "is_valid_build_position g grid_x grid_y =
     (if grid_x < 0 \<or> grid_y < 0 then False
      else if grid_x \<ge> 620 div 32 \<or> grid_y \<ge> 650 div 32 then False
      else if \<exists>b \<in> set (map snd (buildings g)). bld_x b = grid_x \<and> bld_y b = grid_y then False
      else if \<exists>c \<in> set (map snd (cells g)). cell_x c = grid_x \<and> cell_y c = grid_y then False
      else True)"

subsection \<open>Nano: needs, ageing, movement\<close>

definition get_hire_cost :: "Nano \<Rightarrow> real" where
  "get_hire_cost n = wage n * 10"

definition age_one_year :: "Nano \<Rightarrow> Nano" where
  "age_one_year n =
     (let n1 = n\<lparr>age := age n + 1\<rparr>;
          n2 = (if age n1 > 50
                then n1\<lparr>speed := max 50 (speed n1 - 2), brain := min 20 (brain n1 + 0.5)\<rparr>
                else n1)
      in if age n2 > 65 then n2\<lparr>health := max 50 (health n2 - 3)\<rparr> else n2)"

definition is_dead :: "Nano \<Rightarrow> bool" where
  "is_dead n = (age n \<ge> max_lifespan n \<or> health n \<le> 0)"

definition update_position :: "Nano \<Rightarrow> real \<Rightarrow> Nano" where
  "update_position n dt =
     (if moving n
      then (let dx = target_x n - nano_x n;
                dy = target_y n - nano_y n;
                distance = \<bar>dx\<bar> + \<bar>dy\<bar>
            in if distance < 2
               then n\<lparr>nano_x := target_x n, nano_y := target_y n, moving := False\<rparr>
               else (let move_speed = (real_of_int (speed n) / 100) * 100 * dt
                     in if \<bar>dx\<bar> > 1
                        then n\<lparr>nano_x := nano_x n + (if dx > 0 then move_speed else - move_speed)\<rparr>
                        else if \<bar>dy\<bar> > 1
                        then n\<lparr>nano_y := nano_y n + (if dy > 0 then move_speed else - move_speed)\<rparr>
                        else n))
      else n)"

definition move_to :: "Nano \<Rightarrow> real \<Rightarrow> real \<Rightarrow> Nano" where
  "move_to n x y = n\<lparr>target_x := x, target_y := y, moving := True\<rparr>"

definition study :: "Nano \<Rightarrow> Nano" where
  "study n =
     (if nstate n = LEARNING
      then n\<lparr>skills := (skills n)(WORKER := min 10 (skills n WORKER + 0.1)),
             brain := brain n + 0.05\<rparr>
      else n)"

definition train :: "Nano \<Rightarrow> Nano" where
  "train n =
     (if nstate n = TRAINING
      then n\<lparr>force := force n + 0.1, health := min 100 (health n + 0.5)\<rparr>
      else n)"

definition enjoy_music :: "Nano \<Rightarrow> Nano" where
  "enjoy_music n = (if nstate n = HAPPY_TIME then n\<lparr>happy := min 100 (happy n + 2)\<rparr> else n)"

definition consume_meal :: "Nano \<Rightarrow> Resource \<Rightarrow> bool \<times> Nano \<times> Resource" where
  "consume_meal n r =
     (case drain_eu r 0.3 of (ok, r') \<Rightarrow>
        if ok then (True, n\<lparr>meals_today := meals_today n + 1, hours_without_food := 0\<rparr>, r')
        else (False, n\<lparr>health := health n - 5,
                        hours_without_food := hours_without_food n + 1\<rparr>, r'))"

definition needs_home :: "Nano \<Rightarrow> bool" where
  "needs_home n = (home_building n = None)"

definition lose_happiness :: "Nano \<Rightarrow> real \<Rightarrow> Nano" where
  "lose_happiness n amount = n\<lparr>happy := max 0 (happy n - amount)\<rparr>"

definition update_daily_needs :: "Nano \<Rightarrow> int \<Rightarrow> Nano" where
  "update_daily_needs n hour =
     (let n1 = (if hour = 0
                then (let m = n\<lparr>meals_today := 0, work_hours := 0, sleep_hours := 0,
                                 other_hours := 0\<rparr>
                      in if needs_home m
                         then (let m1 = lose_happiness m 10;
                                   m2 = m1\<lparr>hours_homeless := hours_homeless m1 + 24\<rparr>
                               in if hours_homeless m2 \<ge> 48
                                  then m2\<lparr>health := health m2 - 10\<rparr> else m2)
                         else m\<lparr>hours_homeless := 0\<rparr>)
                else n);
          n2 = (if hours_without_food n1 \<ge> 24
                then n1\<lparr>health := health n1 - 2, happy := happy n1 - 5\<rparr>
                else n1)
      in if health n2 < 20 then n2\<lparr>happy := happy n2 - 1\<rparr> else n2)"

definition update_yearly_aging :: "Nano \<Rightarrow> int \<Rightarrow> int \<Rightarrow> Nano" where
  "update_yearly_aging n year last_y =
     (if year > last_y then (age_one_year ^^ nat (year - last_y)) n else n)"

subsection \<open>Clock (\<open>update_time\<close>)\<close>

definition advance_minute :: "GameState \<Rightarrow> GameState" where
  "advance_minute s =
     (let s1 = s\<lparr>game_minute := game_minute s + 1\<rparr> in
      if game_minute s1 \<ge> 60
      then (let s2 = s1\<lparr>game_minute := 0, game_hour := game_hour s1 + 1\<rparr>;
                s3 = s2\<lparr>nanos := map (\<lambda>(k, n). (k, update_daily_needs n (game_hour s2)))
                                     (nanos s2)\<rparr>
            in if game_hour s3 \<ge> 24
               then (let s4 = s3\<lparr>game_hour := 0, game_day := game_day s3 + 1\<rparr> in
                     if game_day s4 \<ge> 30
                     then (let s5 = s4\<lparr>game_day := 0, game_month := game_month s4 + 1\<rparr> in
                           if game_month s5 \<ge> 12
                           then (let s6 = s5\<lparr>game_month := 0, game_year := game_year s5 + 1\<rparr>;
                                     s7 = s6\<lparr>nanos := map (\<lambda>(k, n).
                                            (k, update_yearly_aging n (game_year s6) (last_year s6)))
                                          (nanos s6)\<rparr>
                                 in s7\<lparr>last_year := game_year s7\<rparr>)
                           else s5)
                     else s4)
               else s3)
      else s1)"

text \<open>
  The \<open>while\<close> loop of \<open>update_time\<close>: one game minute for each whole second in the
  accumulator.  Each round takes one second off, so the loop ends.
\<close>

function minutes_loop :: "GameState \<Rightarrow> GameState" where
  "minutes_loop s =
     (if time_accumulator s \<ge> 1
      then minutes_loop (advance_minute (s\<lparr>time_accumulator := time_accumulator s - 1\<rparr>))
      else s)"
  by pat_completeness auto

lemma advance_minute_accumulator:
  "time_accumulator (advance_minute s) = time_accumulator s"
  by (simp add: advance_minute_def Let_def)

termination minutes_loop
  by (relation "measure (\<lambda>s. nat \<lfloor>time_accumulator s\<rfloor>)")
    (auto simp: advance_minute_accumulator)

declare minutes_loop.simps [simp del]

definition update_time :: "GameState \<Rightarrow> real \<Rightarrow> GameState" where
  "update_time s dt = minutes_loop (s\<lparr>time_accumulator := time_accumulator s + dt\<rparr>)"

subsection \<open>Game (game.py)\<close>

text \<open>
  The part of the \<open>Game\<close> object that a tick reads or writes outside the display lists:
  the game state, the debris left by dead nanos (position only) and the source of
  random numbers.  \<open>rand g 0\<close> is the next number that \<open>random.random()\<close> returns, a
  real in \<open>[0, 1)\<close>; the other generators are computed from it.
\<close>

record Game =
  state :: GameState
  debris_objects :: "(real \<times> real) list"
  rand :: "nat \<Rightarrow> real"

definition random_random :: "Game \<Rightarrow> real \<times> Game" where
  "random_random g = (rand g 0, g\<lparr>rand := (\<lambda>i. rand g (Suc i))\<rparr>)"

definition random_randint :: "int \<Rightarrow> int \<Rightarrow> Game \<Rightarrow> int \<times> Game" where
  "random_randint a b g =
     (case random_random g of (u, g') \<Rightarrow> (a + \<lfloor>u * real_of_int (b - a + 1)\<rfloor>, g'))"

definition random_uniform :: "real \<Rightarrow> real \<Rightarrow> Game \<Rightarrow> real \<times> Game" where
  "random_uniform a b g = (case random_random g of (u, g') \<Rightarrow> (a + (b - a) * u, g'))"

text \<open>\<open>random.choice\<close> of a list that is not empty.\<close>

definition random_choice :: "'a list \<Rightarrow> Game \<Rightarrow> 'a \<times> Game" where
  "random_choice xs g =
     (case random_random g of (u, g') \<Rightarrow>
        (xs ! min (nat \<lfloor>u * real (length xs)\<rfloor>) (length xs - 1), g'))"

text \<open>Python's truth test of a building id that may be \<open>None\<close>: \<open>None\<close> and \<open>0\<close> are false.\<close>

definition truthy :: "int option \<Rightarrow> bool" where
  "truthy x = (case x of None \<Rightarrow> False | Some i \<Rightarrow> i \<noteq> 0)"

definition find_available_building :: "GameState \<Rightarrow> BuildingType \<Rightarrow> int option" where
  "find_available_building s t =
     map_option fst (find (\<lambda>(k, b). btype b = t \<and> can_accept_worker b) (buildings s))"

definition assign_nano_home :: "GameState \<Rightarrow> Nano \<Rightarrow> Nano" where
  "assign_nano_home s n =
     (if home_building n = None
      then (let home_id = find_available_building s TENT
            in if truthy home_id then n\<lparr>home_building := home_id\<rparr> else n)
      else n)"

text \<open>The centre of a building's grid square, \<open>x * GRID_SIZE + GRID_SIZE // 2\<close>.\<close>

definition centre :: "int \<Rightarrow> real" where
  "centre x = real_of_int (x * 32 + 32 div 2)"

definition make_nano_wander :: "Nano \<Rightarrow> Game \<Rightarrow> Nano \<times> Game" where
  "make_nano_wander n g =
     (let grid_cols = 620 div 32; grid_rows = 650 div 32 in
      case random_randint 1 (grid_cols - 2) g of (target_grid_x, g1) \<Rightarrow>
      case random_randint 1 (grid_rows - 2) g1 of (target_grid_y, g2) \<Rightarrow>
        (move_to n (centre target_grid_x) (centre target_grid_y), g2))"

definition handle_work_time :: "Nano \<Rightarrow> Game \<Rightarrow> Nano \<times> Game" where
  "handle_work_time n g =
     (let n1 = (if assigned_building n = None
                then (let work_building_id = find_available_building (state g) BIO
                      in if truthy work_building_id
                         then n\<lparr>assigned_building := work_building_id\<rparr> else n)
                else n)
      in if truthy (assigned_building n1) \<and> \<not> inside_building n1
         then (case map_of (buildings (state g)) (the (assigned_building n1)) of
                 None \<Rightarrow> (n1, g)
               | Some building \<Rightarrow>
                   if \<not> moving n1
                   then ((move_to n1 (centre (bld_x building)) (centre (bld_y building)))
                           \<lparr>nstate := WORKING\<rparr>, g)
                   else (n1, g))
         else (n1, g))"

definition handle_sleep_time :: "Nano \<Rightarrow> Game \<Rightarrow> Nano \<times> Game" where
  "handle_sleep_time n g =
     (let n1 = assign_nano_home (state g) n in
      if truthy (home_building n1) \<and> \<not> inside_building n1
      then (case map_of (buildings (state g)) (the (home_building n1)) of
              None \<Rightarrow> (n1, g)
            | Some building \<Rightarrow>
                if \<not> moving n1
                then ((move_to n1 (centre (bld_x building)) (centre (bld_y building)))
                        \<lparr>nstate := SLEEPING\<rparr>, g)
                else (n1, g))
      else (let n2 = n1\<lparr>nstate := IDLE\<rparr> in
            if \<not> moving n2
            then (case random_random g of (u, g1) \<Rightarrow>
                    if u < 0.01 then make_nano_wander n2 g1 else (n2, g1))
            else (n2, g)))"

definition send_nano_to_building :: "Nano \<Rightarrow> int \<Rightarrow> string \<Rightarrow> Game \<Rightarrow> Nano \<times> Game" where
  "send_nano_to_building n bid activity_type g =
     (case map_of (buildings (state g)) bid of
        None \<Rightarrow> (n, g)
      | Some building \<Rightarrow>
          if \<not> moving n
          then (let n1 = move_to n (centre (bld_x building)) (centre (bld_y building)) in
                case (if activity_type = ''MUSIC''
                      then (case random_uniform 30 120 g of (d, g1) \<Rightarrow>
                              (n1\<lparr>nstate := HAPPY_TIME, activity_duration := d\<rparr>, g1))
                      else if activity_type = ''STUDY''
                      then (case random_uniform 60 180 g of (d, g1) \<Rightarrow>
                              (n1\<lparr>nstate := LEARNING, activity_duration := d\<rparr>, g1))
                      else if activity_type = ''CAMP''
                      then (case random_uniform 45 150 g of (d, g1) \<Rightarrow>
                              (n1\<lparr>nstate := TRAINING, activity_duration := d\<rparr>, g1))
                      else (n1, g))
                of (n2, g2) \<Rightarrow> (n2\<lparr>activity_timer := 0\<rparr>, g2))
          else (n, g))"

definition choose_free_time_activity :: "Nano \<Rightarrow> Game \<Rightarrow> Nano \<times> Game" where
  "choose_free_time_activity n g =
     (let music_building = find_available_building (state g) MUSIC;
          study_building = find_available_building (state g) STUDY;
          camp_building = find_available_building (state g) CAMP;
          activities =
            (if happy n < 80 \<and> truthy music_building
             then [(''MUSIC'', the music_building)] else []) @
            (if skills n WORKER < 5 \<and> truthy study_building
             then [(''STUDY'', the study_building)] else []) @
            (if force n < 15 \<and> truthy camp_building
             then [(''CAMP'', the camp_building)] else []);
          wander = (\<lambda>g'. let n1 = n\<lparr>nstate := IDLE\<rparr> in
                          if \<not> moving n1 then make_nano_wander n1 g' else (n1, g'))
      in if activities \<noteq> []
         then (case random_random g of (u, g1) \<Rightarrow>
                 if u < 0.7
                 then (case random_choice activities g1 of ((activity_type, bid), g2) \<Rightarrow>
                         send_nano_to_building n bid activity_type g2)
                 else wander g1)
         else wander g)"

text \<open>
  The nano's own step changes the buildings only through \<open>enter_building\<close> and
  \<open>exit_building\<close>; \<open>with_buildings\<close> stores the registry they return.
\<close>

definition with_buildings :: "Game \<Rightarrow> (int \<times> Building) list \<Rightarrow> Game" where
  "with_buildings g bs = g\<lparr>state := (state g)\<lparr>buildings := bs\<rparr>\<rparr>"

definition handle_free_time :: "Nano \<Rightarrow> Game \<Rightarrow> Nano \<times> Game" where
  "handle_free_time n g =
     (if inside_building n \<and> truthy (current_building n) \<and>
         (case map_of (buildings (state g)) (the (current_building n)) of
            None \<Rightarrow> False | Some building \<Rightarrow> btype building = BIO)
      then (case exit_building n (buildings (state g)) of (n1, bs) \<Rightarrow> (n1, with_buildings g bs))
      else if activity_timer n \<ge> activity_duration n then choose_free_time_activity n g
      else (n, g))"

text \<open>
  The entry loop of \<open>check_nano_building_interaction\<close>.  It walks the items of the
  registry; the first admission that succeeds ends it (\<open>break\<close>), and a refused admission
  changes nothing, so the items still to visit are those of the registry at the start.
\<close>

fun try_enter ::
  "Nano \<Rightarrow> (int \<times> Building) list \<Rightarrow> (int \<times> Building) list \<Rightarrow> Nano \<times> (int \<times> Building) list" where
  "try_enter n [] bs = (n, bs)"
| "try_enter n ((bid, building) # rest) bs =
     (let distance = \<bar>nano_x n - centre (bld_x building)\<bar> + \<bar>nano_y n - centre (bld_y building)\<bar>
      in if distance < 20
         then (let should_enter =
                 (if btype building = BIO \<and> nstate n = WORKING
                  then assigned_building n = Some bid
                  else if btype building = TENT \<and> nstate n = SLEEPING
                  then home_building n = Some bid
                  else if btype building = MUSIC \<and> nstate n = HAPPY_TIME then True
                  else if btype building = STUDY \<and> nstate n = LEARNING then True
                  else if btype building = CAMP \<and> nstate n = TRAINING then True
                  else False)
               in if should_enter \<and> \<not> inside_building n
                  then (case enter_building n bid bs of (ok, n', bs') \<Rightarrow>
                          if ok then (n', bs') else try_enter n rest bs)
                  else try_enter n rest bs)
         else try_enter n rest bs)"

text \<open>
  The exit half of \<open>check_nano_building_interaction\<close>: \<open>exit_decision\<close> is the chain of
  tests that applies the gain of a finished activity and sets \<open>should_exit\<close>.
\<close>

definition exit_decision :: "Nano \<Rightarrow> Building \<Rightarrow> int \<Rightarrow> Nano \<times> bool" where
  "exit_decision n building hour =
     (let finished = (activity_timer n \<ge> activity_duration n) in
      if btype building = MUSIC \<and> finished then (enjoy_music n, True)
      else if btype building = STUDY \<and> finished then (study n, True)
      else if btype building = CAMP \<and> finished then (train n, True)
      else if btype building = TENT \<and> 6 \<le> hour \<and> hour < 22 then (n, True)
      else if btype building = BIO \<and> \<not> (8 \<le> hour \<and> hour < 16) then (n, True)
      else (n, False))"

definition try_exit :: "Nano \<Rightarrow> Game \<Rightarrow> Nano \<times> Game" where
  "try_exit n g =
     (if inside_building n \<and> truthy (current_building n)
      then (case map_of (buildings (state g)) (the (current_building n)) of
              None \<Rightarrow> (n, g)
            | Some building \<Rightarrow>
                (case exit_decision n building (game_hour (state g)) of
                   (n1, should_exit) \<Rightarrow>
                     if should_exit
                     then (case exit_building n1 (buildings (state g)) of (n2, bs) \<Rightarrow>
                             (n2\<lparr>nstate := IDLE\<rparr>, with_buildings g bs))
                     else (n1, g)))
      else (n, g))"

definition check_nano_building_interaction :: "Nano \<Rightarrow> Game \<Rightarrow> Nano \<times> Game" where
  "check_nano_building_interaction n g =
     (if moving n then (n, g)
      else (case try_enter n (buildings (state g)) (buildings (state g)) of (n1, bs) \<Rightarrow>
              try_exit n1 (with_buildings g bs)))"

definition update_nano_ai :: "Nano \<Rightarrow> real \<Rightarrow> Game \<Rightarrow> Nano \<times> Game" where
  "update_nano_ai n dt g =
     (let current_hour = game_hour (state g);
          n1 = n\<lparr>activity_timer := activity_timer n + dt\<rparr>
      in case check_nano_building_interaction n1 g of (n2, g2) \<Rightarrow>
         case (if 8 \<le> current_hour \<and> current_hour < 16 then handle_work_time n2 g2
               else if 22 \<le> current_hour \<or> current_hour < 6 then handle_sleep_time n2 g2
               else handle_free_time n2 g2)
         of (n3, g3) \<Rightarrow>
           if current_hour \<in> {8, 12, 18} \<and> meals_today n3 < 3
           then (case consume_meal n3 (resources (state g3)) of (ok, n4, r) \<Rightarrow>
                   (n4, g3\<lparr>state := (state g3)\<lparr>resources := r\<rparr>\<rparr>))
           else (n3, g3))"

text \<open>
  One round of the loop over \<open>self.state.nanos.values()\<close> in \<open>Game.update\<close>, for the
  nano stored under key \<open>k\<close>: position, behaviour, then the death check, which puts the
  nano on the list \<open>dead_nanos\<close>.  No round adds or removes a nano, so the loop runs over
  the keys present at its start.
\<close>

definition nano_round :: "real \<Rightarrow> int \<Rightarrow> Game \<times> Nano list \<Rightarrow> Game \<times> Nano list" where
  "nano_round dt k = (\<lambda>(g, dead_nanos).
     case map_of (nanos (state g)) k of
       None \<Rightarrow> (g, dead_nanos)
     | Some nano \<Rightarrow>
         (case update_nano_ai (update_position nano dt) dt g of (n2, g2) \<Rightarrow>
            (g2\<lparr>state := (state g2)\<lparr>nanos := AList.map_entry k (\<lambda>_. n2) (nanos (state g2))\<rparr>\<rparr>,
             if health n2 \<le> 0 then dead_nanos @ [n2] else dead_nanos)))"

definition nano_loop :: "real \<Rightarrow> Game \<Rightarrow> Game \<times> Nano list" where
  "nano_loop dt g = fold (nano_round dt) (map fst (nanos (state g))) (g, [])"

text \<open>One round of the loop over \<open>dead_nanos\<close>: debris, removal from the nanos and from the buildings.\<close>

definition remove_dead :: "Nano \<Rightarrow> Game \<Rightarrow> Game" where
  "remove_dead dead_nano g =
     (let g1 = g\<lparr>debris_objects := debris_objects g @ [(nano_x dead_nano, nano_y dead_nano)]\<rparr>;
          s = state g1;
          s1 = (if nano_id dead_nano \<in> fst ` set (nanos s)
                then s\<lparr>nanos := AList.delete (nano_id dead_nano) (nanos s)\<rparr> else s);
          s2 = s1\<lparr>buildings := map (\<lambda>(k, b). (k,
                    if nano_id dead_nano \<in> set (workers b)
                    then b\<lparr>workers := remove1 (nano_id dead_nano) (workers b)\<rparr> else b))
                  (buildings s1)\<rparr>
      in g1\<lparr>state := s2\<rparr>)"

text \<open>
  \<open>Game.update\<close> with no click pending (\<open>handle_input\<close> then does nothing).  The steps after
  the removal of the dead (floating labels, debris ageing, power effects, game
  conditions) touch neither the nanos nor the buildings and are left out.
\<close>

definition before_nanos :: "Game \<Rightarrow> real \<Rightarrow> Game" where
  "before_nanos g dt = g\<lparr>state := update_energy_system (update_time (state g) dt) dt\<rparr>"

definition dead_nanos_of :: "Game \<Rightarrow> real \<Rightarrow> Nano list" where
  "dead_nanos_of g dt = snd (nano_loop dt (before_nanos g dt))"

definition Game_update :: "Game \<Rightarrow> real \<Rightarrow> Game" where
  "Game_update g dt =
     (case nano_loop dt (before_nanos g dt) of (g2, dead_nanos) \<Rightarrow> fold remove_dead dead_nanos g2)"

section \<open>Example states\<close>

definition sale_state :: GameState where
  "sale_state = GameState_init\<lparr>
     resources := Resource_init\<lparr>surge_capacitor := 1\<rparr>,
     cells := [(1, (Cell_init 1 4 4)\<lparr>stored_energy := 1\<rparr>)]\<rparr>"

definition sale_state1 :: GameState where
  "sale_state1 = GameState_init\<lparr>
     resources := Resource_init\<lparr>surge_capacitor := 1, credits := 2000, sell_rate := 900\<rparr>,
     cells := [(1, Cell_init 1 4 4)]\<rparr>"

definition sale_state2 :: GameState where
  "sale_state2 = GameState_init\<lparr>
     resources := Resource_init\<lparr>surge_capacitor := 0, credits := 2900, sell_rate := 810\<rparr>,
     cells := [(1, Cell_init 1 4 4)]\<rparr>"

text \<open>
  One unit in the surge capacitor and 50 credits, no cell: the first cell costs 1 EU and
  100 credits.
\<close>

definition short_of_credits :: GameState where
  "short_of_credits =
     GameState_init\<lparr>resources := Resource_init\<lparr>credits := 50, surge_capacitor := 1\<rparr>\<rparr>"

text \<open>Cell 1 at level 10, full, and 50 credits.\<close>

definition short_of_credits_cell :: GameState where
  "short_of_credits_cell = GameState_init\<lparr>resources := Resource_init\<lparr>credits := 50\<rparr>,
     cells := [(1, (Cell_init 1 4 4)\<lparr>cell_level := 10, stored_energy := 10\<rparr>)]\<rparr>"

text \<open>Cell 1 on grid square (3, 3), a tent on (5, 5), energy and credits for more.\<close>

definition occupied_state :: GameState where
  "occupied_state = GameState_init\<lparr>
     cells := [(1, (Cell_init 1 3 3)\<lparr>cell_level := 12, stored_energy := 12\<rparr>)],
     buildings := [(1, (Building_init TENT 5 5)\<lparr>building_id := Some 1\<rparr>)],
     next_building_id := 2\<rparr>"

text \<open>
  One unit in the surge capacitor; cell 1 empty, cell 2 (level 2) short of 0.1, cell 3
  full.
\<close>

definition transfer_state :: GameState where
  "transfer_state = GameState_init\<lparr>
     resources := Resource_init\<lparr>surge_capacitor := 1\<rparr>,
     cells := [(1, Cell_init 1 2 2),
               (2, (Cell_init 2 3 2)\<lparr>cell_level := 2, stored_energy := 1.9\<rparr>),
               (3, (Cell_init 3 4 2)\<lparr>stored_energy := 1\<rparr>)]\<rparr>"

text \<open>Cell 1 at level 1 holding 2 units, nothing else.\<close>

definition overfull_state :: GameState where
  "overfull_state = GameState_init\<lparr>cells := [(1, (Cell_init 1 2 2)\<lparr>stored_energy := 2\<rparr>)]\<rparr>"

text \<open>
  A music hall holding nano 4, an empty study and a BIO generator that is full with
  nano 7; and nano 4 itself, inside the music hall, standing on the study's square.
\<close>

definition two_buildings :: "(int \<times> Building) list" where
  "two_buildings = [(1, (Building_init MUSIC 1 1)\<lparr>workers := [4], building_id := Some 1\<rparr>),
                    (2, (Building_init STUDY 2 2)\<lparr>building_id := Some 2\<rparr>),
                    (3, (Building_init BIO 3 3)\<lparr>workers := [7], building_id := Some 3\<rparr>)]"

definition resident :: Nano where
  "resident = (Nano_init 4 20 70 100)\<lparr>current_building := Some 1, inside_building := True,
     nstate := LEARNING, nano_x := centre 2, nano_y := centre 2\<rparr>"

text \<open>
  A nano of age 90 with a lifespan of 60 and full health, asleep in its tent at hour 0.
\<close>

definition old_nano :: Nano where
  "old_nano = (Nano_init 1 90 60 100)\<lparr>home_building := Some 1, current_building := Some 1,
     inside_building := True, nstate := SLEEPING, nano_x := centre 9, nano_y := centre 10,
     target_x := centre 9, target_y := centre 10\<rparr>"

definition old_nano_game :: Game where
  "old_nano_game = \<lparr>state = GameState_init\<lparr>
       nanos := [(1, old_nano)],
       buildings := [(1, (Building_init TENT 9 10)\<lparr>workers := [1], building_id := Some 1\<rparr>)],
       next_building_id := 2\<rparr>,
     debris_objects = [], rand = (\<lambda>_. 0.5)\<rparr>"

section \<open>Manual work and the surge ceiling\<close>

lemma work_button_no_cells:
  "cells g = [] \<Longrightarrow> surge_capacitor (resources g) \<le> 1.5 \<Longrightarrow>
   cells (work_button_pressed g) = [] \<and>
   surge_capacitor (resources (work_button_pressed g)) \<le> 1.5"
  by (auto simp: work_button_pressed_def add_eu_def Let_def min_def)

lemma manual_work_n_bound:
  "cells g = [] \<Longrightarrow> surge_capacitor (resources g) \<le> 1.5 \<Longrightarrow>
   surge_capacitor (resources (manual_work_n n g)) \<le> 1.5"
proof (induction n arbitrary: g)
  case 0
  then show ?case by simp
next
  case (Suc n)
  from work_button_no_cells [OF Suc.prems]
  have "surge_capacitor (resources (manual_work_n n (work_button_pressed g))) \<le> 1.5"
    by (intro Suc.IH) blast+
  then show ?case by simp
qed

lemma manual_work_20:
  "surge_capacitor (resources (manual_work_n 20 GameState_init)) = 1.5"
  by (simp add: eval_nat_numeral work_button_pressed_def add_eu_def GameState_init_def
      Resource_init_def Let_def)

text \<open>
  C7.  With zero cells and the surge capacitor at or below the ceiling (it starts at 0 and,
  without cells, only grows through the capped additions), any number of WORK presses
  keeps the surge capacitor at or below 1.5; from the initial state (credits 1000,
  work power 0.1, no cells) twenty presses leave it at exactly 1.5.
\<close>

theorem manual_work_ceiling:
  "(cells g = [] \<and> surge_capacitor (resources g) \<le> 1.5 \<longrightarrow>
      surge_capacitor (resources (manual_work_n n g)) \<le> 1.5) \<and>
   surge_capacitor (resources (manual_work_n 20 GameState_init)) = 1.5"
  using manual_work_n_bound [of g n] manual_work_20 by blast

theorem manual_work_ceiling_witness:
  "cells GameState_init = [] \<and> surge_capacitor (resources GameState_init) \<le> 1.5 \<and>
   surge_capacitor (resources (manual_work_n 3 GameState_init)) \<le> 1.5 \<and>
   surge_capacitor (resources (manual_work_n 3 GameState_init)) = 0.3"
  using manual_work_ceiling [of GameState_init 3]
  by (simp add: eval_nat_numeral work_button_pressed_def add_eu_def GameState_init_def
      Resource_init_def Let_def)

section \<open>Admission and capacity\<close>

lemma add_worker_ok:
  "occupancy_ok b \<Longrightarrow>
   occupancy_ok (snd (add_worker b i)) \<and> capacity (snd (add_worker b i)) = capacity b"
  by (auto simp: occupancy_ok_def add_worker_def can_accept_worker_def)

lemma add_workers_ok:
  "occupancy_ok b \<Longrightarrow>
   occupancy_ok (add_workers b ids) \<and> capacity (add_workers b ids) = capacity b"
  by (induction ids arbitrary: b) (simp_all add: add_worker_ok)

lemma update_values_ok:
  "\<forall>b \<in> snd ` set bs. P b \<Longrightarrow> P v \<Longrightarrow> \<forall>b \<in> snd ` set (AList.update k v bs). P b"
  by (induction bs) auto

lemma map_of_values: "map_of bs k = Some b \<Longrightarrow> b \<in> snd ` set bs"
  by (metis map_of_SomeD image_eqI snd_conv)

lemma enter_building_ok:
  assumes "\<forall>b \<in> snd ` set bs. occupancy_ok b"
  shows "\<forall>b \<in> snd ` set (snd (snd (enter_building n bid bs))). occupancy_ok b"
proof (cases "map_of bs bid")
  case None
  then show ?thesis using assms by (simp add: enter_building_def)
next
  case (Some b)
  then have ok: "occupancy_ok b" using assms map_of_values by fastforce
  show ?thesis
  proof (cases "fst (add_worker b (nano_id n))")
    case True
    then have "enter_building n bid bs =
        (True, n\<lparr>current_building := Some bid, inside_building := True\<rparr>,
         AList.update bid (snd (add_worker b (nano_id n))) bs)"
      using Some by (auto simp: enter_building_def split: prod.splits)
    then show ?thesis
      using update_values_ok [OF assms, of "snd (add_worker b (nano_id n))" bid]
        add_worker_ok [OF ok] by simp
  next
    case False
    then have "enter_building n bid bs = (False, n, bs)"
      using Some by (auto simp: enter_building_def split: prod.splits)
    then show ?thesis using assms by simp
  qed
qed

lemma enter_buildings_ok:
  "\<forall>b \<in> snd ` set bs. occupancy_ok b \<Longrightarrow>
   \<forall>b \<in> snd ` set (enter_buildings bs calls). occupancy_ok b"
proof (induction calls arbitrary: bs)
  case Nil
  then show ?case by simp
next
  case (Cons c calls)
  obtain n bid where c: "c = (n, bid)" by (cases c)
  show ?case unfolding c enter_buildings.simps
    by (rule Cons.IH) (rule enter_building_ok [OF Cons.prems])
qed

lemma Building_init_ok:
  "occupancy_ok (Building_init t x y) \<and> capacity (Building_init t x y) = get_capacity t"
  by (cases t) (simp_all add: occupancy_ok_def Building_init_def)

text \<open>Admission changes neither the type nor the capacity of any building.\<close>

lemma add_worker_fixed:
  "btype (snd (add_worker b i)) = btype b \<and> capacity (snd (add_worker b i)) = capacity b"
  by (simp add: add_worker_def)

lemma add_workers_fixed:
  "btype (add_workers b ids) = btype b \<and> capacity (add_workers b ids) = capacity b"
  by (induction ids arbitrary: b) (simp_all add: add_worker_fixed)

lemma update_fixed_part:
  "map_of bs k = Some b \<Longrightarrow> btype v = btype b \<Longrightarrow> capacity v = capacity b \<Longrightarrow>
   fixed_part (AList.update k v bs) = fixed_part bs"
  by (induction bs) (auto simp: fixed_part_def)

lemma enter_building_fixed:
  "fixed_part (snd (snd (enter_building n bid bs))) = fixed_part bs"
proof (cases "map_of bs bid")
  case None
  then show ?thesis by (simp add: enter_building_def)
next
  case (Some b)
  show ?thesis
  proof (cases "fst (add_worker b (nano_id n))")
    case True
    then have "snd (snd (enter_building n bid bs)) =
        AList.update bid (snd (add_worker b (nano_id n))) bs"
      using Some by (auto simp: enter_building_def split: prod.splits)
    then show ?thesis
      using update_fixed_part [OF Some, of "snd (add_worker b (nano_id n))"]
        add_worker_fixed [of b "nano_id n"] by simp
  next
    case False
    then have "enter_building n bid bs = (False, n, bs)"
      using Some by (auto simp: enter_building_def split: prod.splits)
    then show ?thesis by simp
  qed
qed

lemma enter_buildings_fixed: "fixed_part (enter_buildings bs calls) = fixed_part bs"
proof (induction calls arbitrary: bs)
  case Nil
  then show ?case by simp
next
  case (Cons c calls)
  obtain n bid where c: "c = (n, bid)" by (cases c)
  show ?case unfolding c enter_buildings.simps
    using Cons.IH [of "snd (snd (enter_building n bid bs))"] enter_building_fixed [of n bid bs]
    by simp
qed

lemma fixed_part_values:
  assumes "fixed_part bs' = fixed_part bs"
    and "\<forall>b \<in> snd ` set bs. capacity b = get_capacity (btype b)"
  shows "\<forall>b \<in> snd ` set bs'. capacity b = get_capacity (btype b)"
proof -
  have "(\<forall>b \<in> snd ` set xs. capacity b = get_capacity (btype b)) \<longleftrightarrow>
        (\<forall>(k, t, c) \<in> set (fixed_part xs). c = get_capacity t)" for xs
    by (induction xs) (auto simp: fixed_part_def)
  then show ?thesis using assms by metis
qed

lemma enter_buildings_type_capacity:
  assumes "\<forall>b \<in> snd ` set bs. occupancy_ok b \<and> capacity b = get_capacity (btype b)"
  shows "\<forall>b \<in> snd ` set (enter_buildings bs calls).
           int (length (workers b)) \<le> get_capacity (btype b) \<and> distinct (workers b)"
proof -
  have ok: "\<forall>b \<in> snd ` set (enter_buildings bs calls). occupancy_ok b"
    using assms by (intro enter_buildings_ok) blast
  have cap: "\<forall>b \<in> snd ` set (enter_buildings bs calls). capacity b = get_capacity (btype b)"
    using assms by (intro fixed_part_values [OF enter_buildings_fixed]) blast
  show ?thesis using ok cap by (auto simp: occupancy_ok_def)
qed

text \<open>
  C8.  A building whose occupant list is within its capacity and free of duplicates (as
  every building is when \<open>Building.__init__\<close> returns, with the capacity of its type)
  stays so under any sequence of \<open>add_worker\<close> calls, which change neither its type nor
  its capacity.  A registry of such buildings stays so under any sequence of
  \<open>Nano.enter_building\<close> calls, which leave the key, the type and the capacity of every
  building as they were; so where each capacity is the one of the building's type, no
  occupant list ever exceeds the capacity of that type or holds an identifier twice.
\<close>

theorem admission_within_capacity:
  "(occupancy_ok b \<longrightarrow>
      occupancy_ok (add_workers b ids) \<and> capacity (add_workers b ids) = capacity b \<and>
      btype (add_workers b ids) = btype b) \<and>
   ((\<forall>b \<in> snd ` set bs. occupancy_ok b) \<longrightarrow>
      (\<forall>b \<in> snd ` set (enter_buildings bs calls). occupancy_ok b)) \<and>
   map (\<lambda>(k, b). (k, btype b, capacity b)) (enter_buildings bs calls) =
     map (\<lambda>(k, b). (k, btype b, capacity b)) bs \<and>
   ((\<forall>b \<in> snd ` set bs. occupancy_ok b \<and> capacity b = get_capacity (btype b)) \<longrightarrow>
      (\<forall>b \<in> snd ` set (enter_buildings bs calls).
         int (length (workers b)) \<le> get_capacity (btype b) \<and> distinct (workers b))) \<and>
   occupancy_ok (Building_init t x y) \<and> capacity (Building_init t x y) = get_capacity t \<and>
   btype (Building_init t x y) = t"
proof -
  have a: "occupancy_ok b \<longrightarrow>
      occupancy_ok (add_workers b ids) \<and> capacity (add_workers b ids) = capacity b \<and>
      btype (add_workers b ids) = btype b"
    using add_workers_ok [of b ids] add_workers_fixed [of b ids] by blast
  have b: "(\<forall>b \<in> snd ` set bs. occupancy_ok b) \<longrightarrow>
      (\<forall>b \<in> snd ` set (enter_buildings bs calls). occupancy_ok b)"
    using enter_buildings_ok [of bs calls] by blast
  have c: "map (\<lambda>(k, b). (k, btype b, capacity b)) (enter_buildings bs calls) =
     map (\<lambda>(k, b). (k, btype b, capacity b)) bs"
    using enter_buildings_fixed [of bs calls] by (simp add: fixed_part_def)
  have d: "(\<forall>b \<in> snd ` set bs. occupancy_ok b \<and> capacity b = get_capacity (btype b)) \<longrightarrow>
      (\<forall>b \<in> snd ` set (enter_buildings bs calls).
         int (length (workers b)) \<le> get_capacity (btype b) \<and> distinct (workers b))"
    using enter_buildings_type_capacity [of bs calls] by blast
  have e: "occupancy_ok (Building_init t x y) \<and>
      capacity (Building_init t x y) = get_capacity t \<and> btype (Building_init t x y) = t"
    using Building_init_ok [of t x y] by (simp add: Building_init_def)
  show ?thesis using a b c d e by blast
qed

theorem admission_within_capacity_witness:
  "occupancy_ok (Building_init BIO 0 0) \<and>
   workers (add_workers (Building_init BIO 0 0) [7, 8, 7]) = [7] \<and>
   occupancy_ok (add_workers (Building_init BIO 0 0) [7, 8, 7]) \<and>
   capacity (add_workers (Building_init BIO 0 0) [7, 8, 7]) = 1 \<and>
   btype (add_workers (Building_init BIO 0 0) [7, 8, 7]) = BIO \<and>
   map (\<lambda>b. occupancy_ok b \<and> capacity b = get_capacity (btype b))
     (map snd [(1, Building_init TENT 2 3)]) = [True] \<and>
   map (\<lambda>(k, b). (k, btype b, capacity b, workers b)) (enter_buildings [(1, Building_init TENT 2 3)]
      [(Nano_init 4 20 70 100, 1), (Nano_init 5 20 70 100, 1), (Nano_init 4 20 70 100, 1),
       (Nano_init 6 20 70 100, 1)]) = [(1, TENT, 2, [4, 5])] \<and>
   map (\<lambda>b. int (length (workers b)) \<le> get_capacity (btype b) \<and> distinct (workers b))
     (map snd (enter_buildings [(1, Building_init TENT 2 3)]
      [(Nano_init 4 20 70 100, 1), (Nano_init 5 20 70 100, 1), (Nano_init 4 20 70 100, 1),
       (Nano_init 6 20 70 100, 1)])) = [True]"
  using admission_within_capacity [of "Building_init BIO 0 0" "[7, 8, 7]"
      "[(1, Building_init TENT 2 3)]"
      "[(Nano_init 4 20 70 100, 1), (Nano_init 5 20 70 100, 1), (Nano_init 4 20 70 100, 1),
        (Nano_init 6 20 70 100, 1)]" BIO 0 0]
  by (simp add: occupancy_ok_def Building_init_def add_worker_def can_accept_worker_def
      enter_building_def Nano_init_def)

section \<open>Selling\<close>

lemma sell_eu_rate:
  "sell_eu r a = (True, r') \<Longrightarrow>
   credits r' = credits r + a * sell_rate r \<and>
   sell_rate r' = max (sell_rate r * 0.9) (sell_floor r) \<and> sell_floor r' = sell_floor r"
  by (auto simp: sell_eu_def Let_def split: if_splits)

lemma drain_cell_energy_resources: "resources (snd (drain_cell_energy g a)) = resources g"
  by (simp add: drain_cell_energy_def Let_def split: prod.splits)

lemma sell_cell_energy_rate:
  assumes "sell_cell_energy g a = (True, g')"
  shows "credits (resources g') = credits (resources g) + a * sell_rate (resources g) \<and>
   sell_rate (resources g') = max (sell_rate (resources g) * 0.9) (sell_floor (resources g)) \<and>
   sell_floor (resources g') = sell_floor (resources g)"
proof -
  obtain ok g1 where d: "drain_cell_energy g a = (ok, g1)"
    by (cases "drain_cell_energy g a")
  have r: "resources g1 = resources g" using drain_cell_energy_resources [of g a] d by simp
  show ?thesis using assms d r by (cases ok) (auto simp: sell_cell_energy_def Let_def)
qed

lemma sell_rate_step:
  assumes "sell g c = (True, g')"
  shows "credits (resources g') = credits (resources g) + sell_amount c * sell_rate (resources g) \<and>
   sell_rate (resources g') = max (sell_rate (resources g) * 0.9) (sell_floor (resources g)) \<and>
   sell_floor (resources g') = sell_floor (resources g)"
proof (cases c)
  case (Sell_eu a)
  obtain ok r where s: "sell_eu (resources g) a = (ok, r)"
    by (cases "sell_eu (resources g) a")
  with assms Sell_eu have "ok" "g' = g\<lparr>resources := r\<rparr>" by auto
  with s sell_eu_rate [of "resources g" a r] Sell_eu show ?thesis by simp
next
  case (Sell_cell_energy a)
  with assms sell_cell_energy_rate [of g a g'] show ?thesis by simp
qed

lemma decay_max:
  fixes R F :: real
  assumes "0 \<le> F"
  shows "max (max (R * 0.9) F * 0.9 ^ n) F = max (R * 0.9 ^ Suc n) F"
proof -
  have p: "(0.9::real) ^ n \<le> 1" by (simp add: power_le_one)
  have p0: "(0::real) \<le> 0.9 ^ n" by simp
  have le: "F * 0.9 ^ n \<le> F" using assms p by (simp add: mult_left_le)
  have "max (R * 0.9) F * 0.9 ^ n = max (R * 0.9 * 0.9 ^ n) (F * 0.9 ^ n)"
    using p0 by (simp add: max_mult_distrib_right)
  then have "max (max (R * 0.9) F * 0.9 ^ n) F = max (R * 0.9 * 0.9 ^ n) (max (F * 0.9 ^ n) F)"
    by (simp only: max.assoc)
  also have "max (F * 0.9 ^ n) F = F" using le by (rule max_absorb2)
  also have "R * 0.9 * 0.9 ^ n = R * 0.9 ^ Suc n" by simp
  finally show ?thesis .
qed

lemma sells_rate:
  assumes "0 \<le> sell_floor (resources g)" "sell_floor (resources g) \<le> sell_rate (resources g)"
    and "sells g cs = Some g'"
  shows "sell_rate (resources g') =
         max (sell_rate (resources g) * 0.9 ^ length cs) (sell_floor (resources g))"
  using assms
proof (induction cs arbitrary: g)
  case Nil
  then show ?case by simp
next
  case (Cons c cs)
  from Cons.prems(3) obtain g1 where s: "sell g c = (True, g1)" and r: "sells g1 cs = Some g'"
    by (auto split: prod.splits if_splits)
  note st = sell_rate_step [OF s]
  have f: "0 \<le> sell_floor (resources g1)" using st Cons.prems by simp
  have l: "sell_floor (resources g1) \<le> sell_rate (resources g1)" using st by simp
  have "sell_rate (resources g') =
        max (sell_rate (resources g1) * 0.9 ^ length cs) (sell_floor (resources g1))"
    by (rule Cons.IH [OF f l r])
  also have "\<dots> = max (max (sell_rate (resources g) * 0.9) (sell_floor (resources g)) *
                       0.9 ^ length cs) (sell_floor (resources g))"
    using st by simp
  also have "\<dots> = max (sell_rate (resources g) * 0.9 ^ Suc (length cs)) (sell_floor (resources g))"
    by (rule decay_max [OF Cons.prems(1)])
  finally show ?case by simp
qed

text \<open>
  The two hypotheses of the next theorem hold in every state the program reaches:
  \<open>Resource.__init__\<close> sets the floor to 10 and the rate to 1000, nothing assigns the
  floor, and the only assignments to the rate are the two \<open>max (\<dots>) sell_floor\<close>.
\<close>

lemma sell_rate_above_floor_init:
  "0 \<le> sell_floor (resources GameState_init) \<and>
   sell_floor (resources GameState_init) \<le> sell_rate (resources GameState_init)"
  by (simp add: GameState_init_def Resource_init_def)

lemma sell_rate_above_floor_step:
  "sell g c = (True, g') \<Longrightarrow> sell_floor (resources g') \<le> sell_rate (resources g')"
  using sell_rate_step [of g c g'] by simp

text \<open>
  C2.  A successful sell of amount \<open>A\<close>, from the surge capacitor (\<open>sell_eu\<close>) or from the
  cells (\<open>sell_cell_energy\<close>), adds \<open>A\<close> times the rate in effect before the decay to the
  credits; and after \<open>N\<close> consecutive successful sells from rate \<open>R0\<close> the rate is
  \<open>max (R0 * 0.9 ^ N) sell_floor\<close>, for a floor that is not negative and not above \<open>R0\<close>.
\<close>

theorem sell_pays_rate_before_decay:
  assumes "0 \<le> sell_floor (resources g)"
    and "sell_floor (resources g) \<le> sell_rate (resources g)"
  shows "(sell g c = (True, g1) \<longrightarrow>
            credits (resources g1) =
            credits (resources g) + sell_amount c * sell_rate (resources g)) \<and>
         (sells g cs = Some g2 \<longrightarrow>
            sell_rate (resources g2) =
            max (sell_rate (resources g) * 0.9 ^ length cs) (sell_floor (resources g)))"
  using sell_rate_step [of g c g1] sells_rate [OF assms, of cs g2] by blast

lemma sale_state_sell1: "sell sale_state (Sell_cell_energy 1) = (True, sale_state1)"
  by (simp add: sale_state_def sale_state1_def sell_cell_energy_def drain_cell_energy_def
      get_total_cell_energy_def GameState_init_def Resource_init_def Cell_init_def Let_def)

lemma sale_state_sell2: "sell sale_state1 (Sell_eu 1) = (True, sale_state2)"
  by (simp add: sale_state1_def sale_state2_def sell_eu_def
      GameState_init_def Resource_init_def Cell_init_def Let_def)

theorem sell_pays_rate_before_decay_witness:
  "0 \<le> sell_floor (resources sale_state) \<and>
   sell_floor (resources sale_state) \<le> sell_rate (resources sale_state) \<and>
   sell sale_state (Sell_cell_energy 1) = (True, sale_state1) \<and>
   credits (resources sale_state1) = credits (resources sale_state) + 1 * 1000 \<and>
   sells sale_state [Sell_cell_energy 1, Sell_eu 1] = Some sale_state2 \<and>
   sell_rate (resources sale_state2) = 810"
proof -
  have h1: "0 \<le> sell_floor (resources sale_state)"
    by (simp add: sale_state_def GameState_init_def Resource_init_def)
  have h2: "sell_floor (resources sale_state) \<le> sell_rate (resources sale_state)"
    by (simp add: sale_state_def GameState_init_def Resource_init_def)
  have s: "sells sale_state [Sell_cell_energy 1, Sell_eu 1] = Some sale_state2"
    using sale_state_sell1 sale_state_sell2 by simp
  have r: "sell_rate (resources sale_state) = 1000"
    by (simp add: sale_state_def GameState_init_def Resource_init_def)
  from sell_pays_rate_before_decay [OF h1 h2, of "Sell_cell_energy 1" sale_state1
      "[Sell_cell_energy 1, Sell_eu 1]" sale_state2]
  show ?thesis using h1 h2 s r sale_state_sell1
    by (simp add: sale_state2_def GameState_init_def Resource_init_def)
qed

section \<open>Purchases with two costs\<close>

lemma drain_loop_done: "r \<le> 0 \<Longrightarrow> drain_loop cs r = (cs, r)"
  by (cases cs) auto

lemma drain_loop_remaining:
  "snd (drain_loop cs r) \<le> 0 \<or>
   snd (drain_loop cs r) = r - (\<Sum>c\<leftarrow>map snd cs. max 0 (stored_energy c))"
proof (induction cs r rule: drain_loop.induct)
  case (1 remaining)
  then show ?case by simp
next
  case (2 k c cs remaining)
  show ?case
  proof (cases "remaining \<le> 0")
    case True
    then show ?thesis by simp
  next
    case False
    note pos = this
    show ?thesis
    proof (cases "stored_energy c > 0")
      case True
      show ?thesis
      proof (cases "stored_energy c \<le> remaining")
        case le: True
        from 2(1) [OF pos True refl] show ?thesis using pos True le
          by (auto simp: Let_def min_def split: prod.splits)
      next
        case gt: False
        then show ?thesis using pos True
          by (simp add: Let_def min_def drain_loop_done)
      qed
    next
      case False
      from 2(2) [OF pos False] show ?thesis using pos False
        by (auto simp: Let_def split: prod.splits)
    qed
  qed
qed

lemma sum_le_sum_pos:
  "(\<Sum>c\<leftarrow>cs. stored_energy c) \<le> (\<Sum>c\<leftarrow>cs. max 0 (stored_energy c))"
  by (induction cs) auto

text \<open>A drain that reports failure has changed nothing.\<close>

lemma drain_cell_energy_fail:
  assumes "\<not> fst (drain_cell_energy g a)"
  shows "snd (drain_cell_energy g a) = g"
proof (cases "length (cells g) = 0 \<or> get_total_cell_energy g < a")
  case True
  then show ?thesis by (auto simp: drain_cell_energy_def)
next
  case False
  then have tot: "a \<le> get_total_cell_energy g" by simp
  have "snd (drain_loop (cells g) a) \<le> 0"
    using drain_loop_remaining [of "cells g" a] tot sum_le_sum_pos [of "map snd (cells g)"]
    by (auto simp: get_total_cell_energy_def)
  then have "fst (drain_cell_energy g a)"
    using False by (simp add: drain_cell_energy_def case_prod_beta)
  with assms show ?thesis by simp
qed

lemma pay_eu_fail: "\<not> fst (pay_eu g e) \<Longrightarrow> snd (pay_eu g e) = g"
  using drain_cell_energy_fail [of g e]
  by (auto simp: pay_eu_def drain_eu_def Let_def split: if_splits prod.splits)

text \<open>
  The half of the rule that the code keeps: when the energy cannot be paid, the credits
  taken are given back and the state is the one before the attempt.
\<close>

lemma settle_without_eu: "settle g False c commit = (False, g)"
  by (simp add: settle_def spend_credits_def Let_def)

text \<open>
  The other half: when the credits cannot be paid, the state is the one that \<open>pay_eu\<close>
  left, with the energy already drained.
\<close>

lemma settle_without_credits:
  "credits (resources g) < c \<Longrightarrow> settle g ok c commit = (False, g)"
  by (simp add: settle_def spend_credits_def Let_def)

text \<open>
  C1.  The claim fails on the code where the energy can be paid and the credits cannot:
  \<open>build_cell\<close> with 1 EU in the surge capacitor and 50 credits returns failure and
  leaves the total energy at 0 instead of 1; \<open>upgrade_cell\<close> and \<open>build_building\<close> with a
  full level-10 cell and 50 credits return failure and leave the total energy at 0
  instead of 10.  The credits are unchanged in all three.
\<close>

theorem purchase_keeps_energy_charge:
  "fst (build_cell short_of_credits 0 0) = False \<and>
   get_total_system_energy short_of_credits = 1 \<and>
   get_total_system_energy (snd (build_cell short_of_credits 0 0)) = 0 \<and>
   credits (resources (snd (build_cell short_of_credits 0 0))) = 50 \<and>
   fst (upgrade_cell short_of_credits_cell 1) = False \<and>
   get_total_system_energy short_of_credits_cell = 10 \<and>
   get_total_system_energy (snd (upgrade_cell short_of_credits_cell 1)) = 0 \<and>
   credits (resources (snd (upgrade_cell short_of_credits_cell 1))) = 50 \<and>
   fst (build_building short_of_credits_cell TENT 0 0) = False \<and>
   get_total_system_energy (snd (build_building short_of_credits_cell TENT 0 0)) = 0 \<and>
   credits (resources (snd (build_building short_of_credits_cell TENT 0 0))) = 50"
  by (simp add: build_cell_def upgrade_cell_def build_building_def short_of_credits_def
      short_of_credits_cell_def GameState_init_def Resource_init_def get_purchase_cost_def
      get_upgrade_cost_def Building_init_def Cell_init_def pay_eu_def drain_eu_def
      drain_cell_energy_def get_total_cell_energy_def settle_def spend_credits_def
      get_total_system_energy_def Let_def)

section \<open>Placement on an occupied grid square\<close>

text \<open>
  C9.  The claim fails on the code: \<open>build_cell\<close> and \<open>build_building\<close> never look at
  what stands on the target square.  With cell 1 on (3, 3) and a tent on (5, 5), which
  \<open>is_valid_build_position\<close> reports as not valid, a second cell is built on (3, 3), a
  second tent on (5, 5) and a tent on the cell's square (3, 3).
\<close>

theorem placement_on_occupied_square:
  "is_valid_build_position occupied_state 3 3 = False \<and>
   is_valid_build_position occupied_state 5 5 = False \<and>
   fst (build_cell occupied_state 3 3) = True \<and>
   map (\<lambda>(k, c). (k, cell_x c, cell_y c)) (cells (snd (build_cell occupied_state 3 3))) =
     [(1, 3, 3), (2, 3, 3)] \<and>
   fst (build_building occupied_state TENT 5 5) = True \<and>
   map (\<lambda>(k, b). (k, bld_x b, bld_y b))
     (buildings (snd (build_building occupied_state TENT 5 5))) = [(1, 5, 5), (2, 5, 5)] \<and>
   fst (build_building occupied_state TENT 3 3) = True"
  by (simp add: is_valid_build_position_def build_cell_def build_building_def
      occupied_state_def GameState_init_def Resource_init_def Building_init_def Cell_init_def
      pay_eu_def drain_cell_energy_def get_total_cell_energy_def get_purchase_cost_def
      settle_def spend_credits_def Let_def)

section \<open>Energy transfer and overflow\<close>

lemma energy_to_add_bounds:
  "0 \<le> energy_to_add p c" "0 \<le> p \<Longrightarrow> energy_to_add p c \<le> p"
  by (auto simp: energy_to_add_def Let_def min_def)

lemma energy_to_add_needy:
  "0 \<le> p \<Longrightarrow> stored_energy c < real_of_int (cell_level c) \<Longrightarrow>
   energy_to_add p c = min p (real_of_int (cell_level c) - stored_energy c)"
  by (auto simp: energy_to_add_def Let_def min_def)

lemma sum_energy_to_add:
  "0 \<le> p \<Longrightarrow> 0 \<le> (\<Sum>c\<leftarrow>xs. energy_to_add p c) \<and>
     (\<Sum>c\<leftarrow>xs. energy_to_add p c) \<le> real (length xs) * p"
proof (induction xs)
  case Nil
  then show ?case by simp
next
  case (Cons x xs)
  then show ?case using energy_to_add_bounds [of p x] by (simp add: algebra_simps)
qed

lemma sum_after_add_energy:
  "(\<Sum>c\<leftarrow>map snd (map (add_energy p) cs). stored_energy c) =
   (\<Sum>c\<leftarrow>map snd cs. stored_energy c) +
   (\<Sum>c\<leftarrow>filter needs_energy (map snd cs). energy_to_add p c)"
  by (induction cs) (auto simp: add_energy_def)

lemma add_energy_keys: "map fst (map (add_energy p) cs) = map fst cs"
  by (induction cs) (auto simp: add_energy_def)

text \<open>The two outcomes of the transfer step.\<close>

lemma transfer_to_cells_moves:
  assumes S: "S = surge_capacitor (resources g)" and e: "e = min S (0.5 * dt)"
    and ns: "ns = filter needs_energy (map snd (cells g))"
    and p: "p = e / real (length ns)"
    and T: "T = (\<Sum>c\<leftarrow>ns. energy_to_add p c)"
    and pos: "S > 0" "cells g \<noteq> []" "e > 0" "ns \<noteq> []"
  shows "transfer_to_cells g dt =
     g\<lparr>cells := map (add_energy p) (cells g),
       resources := (resources g)\<lparr>surge_capacitor := S - T\<rparr>\<rparr>"
proof -
  have unf: "transfer_to_cells g dt =
     (if S > 0 \<and> length (cells g) > 0
      then (if e > 0
            then (if ns \<noteq> []
                  then g\<lparr>cells := map (add_energy p) (cells g),
                         resources := (if T > 0 then (resources g)\<lparr>surge_capacitor := S - T\<rparr>
                                       else resources g)\<rparr>
                  else g)
            else g)
      else g)"
    unfolding T p ns e S transfer_to_cells_def Let_def by (rule refl)
  have p0: "0 \<le> p" using pos(3) by (simp add: p)
  have "0 \<le> T" unfolding T using sum_energy_to_add [OF p0] by blast
  then have "(if T > 0 then (resources g)\<lparr>surge_capacitor := S - T\<rparr> else resources g) =
        (resources g)\<lparr>surge_capacitor := S - T\<rparr>"
    by (cases "T = 0") (auto simp: S)
  then show ?thesis using pos unf by simp
qed

lemma transfer_to_cells_idle:
  assumes S: "S = surge_capacitor (resources g)" and e: "e = min S (0.5 * dt)"
    and ns: "ns = filter needs_energy (map snd (cells g))"
    and idle: "\<not> (S > 0 \<and> cells g \<noteq> [] \<and> e > 0 \<and> ns \<noteq> [])"
  shows "transfer_to_cells g dt = g"
proof -
  have skip: "\<And>A B C D x. \<not> (A \<and> B \<and> C \<and> D) \<Longrightarrow>
      (if A \<and> B then (if C then (if D then x else g) else g) else g) = g"
    by auto
  have "\<not> (surge_capacitor (resources g) > 0 \<and> length (cells g) > 0 \<and>
           min (surge_capacitor (resources g)) (0.5 * dt) > 0 \<and>
           filter needs_energy (map snd (cells g)) \<noteq> [])"
    using idle unfolding S e ns length_greater_0_conv by blast
  then show ?thesis unfolding transfer_to_cells_def Let_def by (rule skip)
qed

text \<open>
  C3.  In a tick of length \<open>dt \<ge> 0\<close> with at least one cell (all cells active, as they
  are from \<open>Cell.__init__\<close> on) and a positive surge capacitor, the transfer step takes
  at most \<open>0.5 * dt\<close> from the surge capacitor and never a negative amount; the surge
  capacitor loses exactly what the cells gain; the dict keys and every field of a cell
  other than the stored energy stay; a cell below its capacity receives the even share
  \<open>min surge (0.5 * dt) / (number of cells below capacity)\<close>, cut to the space it has
  left, and ends at or below its capacity; every other cell keeps its stored energy.
\<close>

theorem transfer_step:
  assumes dt: "0 \<le> dt" and ne: "cells g \<noteq> []" and s: "surge_capacitor (resources g) > 0"
    and act: "\<forall>c \<in> set (map snd (cells g)). active c"
  shows "surge_capacitor (resources g) - surge_capacitor (resources (transfer_to_cells g dt)) \<le> 0.5 * dt \<and>
    0 \<le> surge_capacitor (resources g) - surge_capacitor (resources (transfer_to_cells g dt)) \<and>
    surge_capacitor (resources g) - surge_capacitor (resources (transfer_to_cells g dt)) =
      get_total_cell_energy (transfer_to_cells g dt) - get_total_cell_energy g \<and>
    map fst (cells (transfer_to_cells g dt)) = map fst (cells g) \<and>
    (\<forall>i < length (cells g).
       snd (cells (transfer_to_cells g dt) ! i) =
         (snd (cells g ! i))\<lparr>stored_energy := stored_energy (snd (cells (transfer_to_cells g dt) ! i))\<rparr> \<and>
       (if stored_energy (snd (cells g ! i)) < real_of_int (cell_level (snd (cells g ! i)))
        then stored_energy (snd (cells (transfer_to_cells g dt) ! i)) =
               stored_energy (snd (cells g ! i)) +
               min (min (surge_capacitor (resources g)) (0.5 * dt) /
                      real (length (filter (\<lambda>c. stored_energy c < real_of_int (cell_level c))
                                      (map snd (cells g)))))
                   (real_of_int (cell_level (snd (cells g ! i))) - stored_energy (snd (cells g ! i))) \<and>
             stored_energy (snd (cells (transfer_to_cells g dt) ! i)) \<le>
               real_of_int (cell_level (snd (cells g ! i)))
        else stored_energy (snd (cells (transfer_to_cells g dt) ! i)) = stored_energy (snd (cells g ! i))))"
proof -
  define S where "S = surge_capacitor (resources g)"
  define e where "e = min S (0.5 * dt)"
  define ns where "ns = filter needs_energy (map snd (cells g))"
  define p where "p = e / real (length ns)"
  define T where "T = (\<Sum>c\<leftarrow>ns. energy_to_add p c)"
  define g' where "g' = transfer_to_cells g dt"
  have filt: "filter (\<lambda>c. stored_energy c < real_of_int (cell_level c)) (map snd (cells g)) = ns"
    unfolding ns_def using act by (intro filter_cong) (auto simp: needs_energy_def)
  have S0: "0 < S" using s by (simp add: S_def)
  have e0: "0 \<le> e" using dt S0 by (simp add: e_def)
  have p0: "0 \<le> p" using e0 by (simp add: p_def)
  have main: "S - surge_capacitor (resources g') \<le> 0.5 * dt \<and>
    0 \<le> S - surge_capacitor (resources g') \<and>
    S - surge_capacitor (resources g') = get_total_cell_energy g' - get_total_cell_energy g \<and>
    map fst (cells g') = map fst (cells g) \<and>
    (\<forall>i < length (cells g).
       snd (cells g' ! i) = (snd (cells g ! i))\<lparr>stored_energy := stored_energy (snd (cells g' ! i))\<rparr> \<and>
       (if stored_energy (snd (cells g ! i)) < real_of_int (cell_level (snd (cells g ! i)))
        then stored_energy (snd (cells g' ! i)) = stored_energy (snd (cells g ! i)) +
               min p (real_of_int (cell_level (snd (cells g ! i))) - stored_energy (snd (cells g ! i))) \<and>
             stored_energy (snd (cells g' ! i)) \<le> real_of_int (cell_level (snd (cells g ! i)))
        else stored_energy (snd (cells g' ! i)) = stored_energy (snd (cells g ! i))))"
  proof (cases "e > 0 \<and> ns \<noteq> []")
    case True
    then have len: "0 < real (length ns)" by (cases ns) auto
    have g': "g' = g\<lparr>cells := map (add_energy p) (cells g),
        resources := (resources g)\<lparr>surge_capacitor := S - T\<rparr>\<rparr>"
      unfolding g'_def using True ne S0
      by (intro transfer_to_cells_moves [OF S_def e_def ns_def p_def T_def]) auto
    have tot: "0 \<le> T" "T \<le> real (length ns) * p"
      unfolding T_def using sum_energy_to_add [OF p0, of ns] by blast+
    have "real (length ns) * p = e" using len by (simp add: p_def)
    moreover have "e \<le> 0.5 * dt" by (simp add: e_def)
    ultimately have le: "T \<le> 0.5 * dt" using tot(2) by linarith
    have c1: "S - surge_capacitor (resources g') = T" by (simp add: g')
    have cg': "cells g' = map (add_energy p) (cells g)" by (simp add: g')
    have "get_total_cell_energy g' = get_total_cell_energy g + T"
      unfolding get_total_cell_energy_def T_def ns_def cg' by (simp only: sum_after_add_energy)
    then have c2: "get_total_cell_energy g' - get_total_cell_energy g = T" by simp
    have c3: "map fst (cells g') = map fst (cells g)"
      unfolding cg' by (rule add_energy_keys)
    have c4: "snd (cells g' ! i) = (snd (cells g ! i))\<lparr>stored_energy := stored_energy (snd (cells g' ! i))\<rparr> \<and>
       (if stored_energy (snd (cells g ! i)) < real_of_int (cell_level (snd (cells g ! i)))
        then stored_energy (snd (cells g' ! i)) = stored_energy (snd (cells g ! i)) +
               min p (real_of_int (cell_level (snd (cells g ! i))) - stored_energy (snd (cells g ! i))) \<and>
             stored_energy (snd (cells g' ! i)) \<le> real_of_int (cell_level (snd (cells g ! i)))
        else stored_energy (snd (cells g' ! i)) = stored_energy (snd (cells g ! i)))"
      if i: "i < length (cells g)" for i
    proof -
      obtain k c where kc: "cells g ! i = (k, c)" by (cases "cells g ! i")
      have "c \<in> set (map snd (cells g))" using i kc by (metis nth_mem set_map image_eqI snd_conv)
      then have a: "active c" using act by blast
      have n: "cells g' ! i = add_energy p (k, c)" using i kc by (simp add: g')
      show ?thesis
      proof (cases "stored_energy c < real_of_int (cell_level c)")
        case True
        then show ?thesis using a n kc energy_to_add_needy [OF p0 True]
          by (simp add: add_energy_def needs_energy_def)
      next
        case False
        then show ?thesis using n kc by (simp add: add_energy_def needs_energy_def)
      qed
    qed
    have k1: "S - surge_capacitor (resources g') \<le> 0.5 * dt" using c1 le by simp
    have k2: "0 \<le> S - surge_capacitor (resources g')" using c1 tot(1) by simp
    have k3: "S - surge_capacitor (resources g') =
        get_total_cell_energy g' - get_total_cell_energy g" using c1 c2 by simp
    show ?thesis using k1 k2 k3 c3 c4 by blast
  next
    case False
    then have g': "g' = g" unfolding g'_def
      by (intro transfer_to_cells_idle [OF S_def e_def ns_def]) auto
    have k1: "S - surge_capacitor (resources g') \<le> 0.5 * dt" using dt by (simp add: g' S_def)
    have k2: "0 \<le> S - surge_capacitor (resources g')" by (simp add: g' S_def)
    have k3: "S - surge_capacitor (resources g') =
        get_total_cell_energy g' - get_total_cell_energy g" by (simp add: g' S_def)
    have c3: "map fst (cells g') = map fst (cells g)" by (simp add: g')
    have c4: "snd (cells g' ! i) = (snd (cells g ! i))\<lparr>stored_energy := stored_energy (snd (cells g' ! i))\<rparr> \<and>
       (if stored_energy (snd (cells g ! i)) < real_of_int (cell_level (snd (cells g ! i)))
        then stored_energy (snd (cells g' ! i)) = stored_energy (snd (cells g ! i)) +
               min p (real_of_int (cell_level (snd (cells g ! i))) - stored_energy (snd (cells g ! i))) \<and>
             stored_energy (snd (cells g' ! i)) \<le> real_of_int (cell_level (snd (cells g ! i)))
        else stored_energy (snd (cells g' ! i)) = stored_energy (snd (cells g ! i)))"
      if i: "i < length (cells g)" for i
    proof (cases "stored_energy (snd (cells g ! i)) < real_of_int (cell_level (snd (cells g ! i)))")
      case True
      have "snd (cells g ! i) \<in> set (map snd (cells g))" using i by simp
      then have "needs_energy (snd (cells g ! i))" using act True by (auto simp: needs_energy_def)
      then have "snd (cells g ! i) \<in> set ns" using i by (simp add: ns_def)
      then have "ns \<noteq> []" by auto
      with False e0 have "e = 0" by simp
      then have "p = 0" by (simp add: p_def)
      then show ?thesis using True by (simp add: g')
    next
      case False
      then show ?thesis by (simp add: g')
    qed
    show ?thesis using k1 k2 k3 c3 c4 by blast
  qed
  show ?thesis using main unfolding filt g'_def p_def e_def S_def by blast
qed


theorem transfer_step_witness:
  "(0::real) \<le> 1 \<and> cells transfer_state \<noteq> [] \<and> surge_capacitor (resources transfer_state) > 0 \<and>
   map (active \<circ> snd) (cells transfer_state) = [True, True, True] \<and>
   map (stored_energy \<circ> snd) (cells transfer_state) = [0, 1.9, 1] \<and>
   map (stored_energy \<circ> snd) (cells (transfer_to_cells transfer_state 1)) = [0.25, 2, 1] \<and>
   surge_capacitor (resources transfer_state) -
     surge_capacitor (resources (transfer_to_cells transfer_state 1)) = 0.35 \<and>
   get_total_cell_energy (transfer_to_cells transfer_state 1) -
     get_total_cell_energy transfer_state = 0.35"
proof -
  have h1: "(0::real) \<le> 1" by simp
  have h2: "cells transfer_state \<noteq> []" by (simp add: transfer_state_def)
  have h3: "surge_capacitor (resources transfer_state) > 0"
    by (simp add: transfer_state_def Resource_init_def)
  have h4: "\<forall>c \<in> set (map snd (cells transfer_state)). active c"
    by (simp add: transfer_state_def Cell_init_def)
  have ev: "cells (transfer_to_cells transfer_state 1) =
      [(1, (Cell_init 1 2 2)\<lparr>stored_energy := 0.25\<rparr>),
       (2, (Cell_init 2 3 2)\<lparr>cell_level := 2, stored_energy := 2\<rparr>),
       (3, (Cell_init 3 4 2)\<lparr>stored_energy := 1\<rparr>)]"
    by (simp add: transfer_to_cells_def transfer_state_def GameState_init_def Resource_init_def
        Cell_init_def needs_energy_def energy_to_add_def add_energy_def Let_def)
  have sg: "surge_capacitor (resources transfer_state) = 1"
    by (simp add: transfer_state_def Resource_init_def)
  have tc: "get_total_cell_energy transfer_state = 2.9"
    by (simp add: transfer_state_def get_total_cell_energy_def Cell_init_def)
  have tc': "get_total_cell_energy (transfer_to_cells transfer_state 1) = 3.25"
    by (simp add: ev get_total_cell_energy_def Cell_init_def)
  from transfer_step [OF h1 h2 h3 h4]
  have "surge_capacitor (resources transfer_state) -
          surge_capacitor (resources (transfer_to_cells transfer_state 1)) =
        get_total_cell_energy (transfer_to_cells transfer_state 1) -
          get_total_cell_energy transfer_state"
    by blast
  then show ?thesis using h2 h3 tc tc' sg
    by (simp add: ev) (simp add: transfer_state_def Cell_init_def)
qed

text \<open>The overflow correction within \<open>update_energy_system\<close>.\<close>

lemma fold_cells:
  assumes "\<And>x g. cells (f x g) = cells g"
  shows "cells (fold f xs g) = cells g"
  by (induction xs arbitrary: g) (simp_all add: assms)

lemma distribute_cells: "cells (distribute_energy_to_cells g a) = cells g"
  by (simp add: distribute_energy_to_cells_def Let_def)

lemma bio_worker_cells: "cells (bio_worker dt b nid g) = cells g"
  by (simp add: bio_worker_def distribute_cells Let_def split: option.splits)

lemma bio_production_cells: "cells (bio_production dt g) = cells g"
  unfolding bio_production_def
  by (rule fold_cells) (simp add: fold_cells bio_worker_cells)

lemma transfer_to_cells_shape:
  "cells (transfer_to_cells g dt) = cells g \<or>
   (\<exists>p. cells (transfer_to_cells g dt) = map (add_energy p) (cells g))"
proof -
  define S where "S = surge_capacitor (resources g)"
  define e where "e = min S (0.5 * dt)"
  define ns where "ns = filter needs_energy (map snd (cells g))"
  define p where "p = e / real (length ns)"
  define T where "T = (\<Sum>c\<leftarrow>ns. energy_to_add p c)"
  show ?thesis
  proof (cases "S > 0 \<and> cells g \<noteq> [] \<and> e > 0 \<and> ns \<noteq> []")
    case True
    then have "transfer_to_cells g dt = g\<lparr>cells := map (add_energy p) (cells g),
        resources := (resources g)\<lparr>surge_capacitor := S - T\<rparr>\<rparr>"
      by (intro transfer_to_cells_moves [OF S_def e_def ns_def p_def T_def]) auto
    then have "cells (transfer_to_cells g dt) = map (add_energy p) (cells g)" by simp
    then show ?thesis by blast
  next
    case False
    then have "transfer_to_cells g dt = g"
      by (rule transfer_to_cells_idle [OF S_def e_def ns_def])
    then show ?thesis by simp
  qed
qed

lemma transfer_keeps_full_cell:
  assumes "i < length (cells g)" "\<not> needs_energy (snd (cells g ! i))"
  shows "cells (transfer_to_cells g dt) ! i = cells g ! i"
proof -
  have "add_energy p (cells g ! i) = cells g ! i" for p
    using assms(2) by (cases "cells g ! i") (simp add: add_energy_def)
  then show ?thesis using transfer_to_cells_shape [of g dt] assms(1) by auto
qed

lemma transfer_length: "length (cells (transfer_to_cells g dt)) = length (cells g)"
  using transfer_to_cells_shape [of g dt] by auto

lemma update_energy_system_cell:
  assumes "i < length (cells g)" "\<not> needs_energy (snd (cells g ! i))"
  shows "snd (cells (update_energy_system g dt) ! i) = bleed_off dt (snd (cells g ! i))"
proof -
  let ?g1 = "g\<lparr>resources := dissipate_energy (resources g) (length (cells g)) dt\<rparr>"
  have c1: "cells ?g1 = cells g" by simp
  have t: "cells (transfer_to_cells ?g1 dt) ! i = cells g ! i"
    using transfer_keeps_full_cell [of i ?g1 dt] assms by simp
  have l: "i < length (cells (transfer_to_cells ?g1 dt))"
    using assms(1) by (simp add: transfer_length)
  have "cells (update_energy_system g dt) =
        map (\<lambda>(k, c). (k, bleed_off dt c)) (cells (transfer_to_cells ?g1 dt))"
    by (simp add: update_energy_system_def Let_def bio_production_cells)
  then show ?thesis using l t by (simp add: case_prod_beta)
qed

text \<open>
  C4, as amended.  A cell above its level when a tick of length \<open>dt \<ge> 0\<close> starts holds
  \<open>max level (stored - 0.9 * dt * (stored - level))\<close> after \<open>update_energy_system\<close>: its
  level is unchanged, its stored energy is not below the level and not above the old
  value, and it is down at the level exactly when \<open>dt \<ge> 10 / 9\<close>.
\<close>

theorem overflow_bleeds_proportionally:
  assumes "0 \<le> dt" and "i < length (cells g)"
    and "stored_energy (snd (cells g ! i)) > real_of_int (cell_level (snd (cells g ! i)))"
  shows "cell_level (snd (cells (update_energy_system g dt) ! i)) = cell_level (snd (cells g ! i)) \<and>
     stored_energy (snd (cells (update_energy_system g dt) ! i)) =
       max (real_of_int (cell_level (snd (cells g ! i))))
           (stored_energy (snd (cells g ! i)) -
            (stored_energy (snd (cells g ! i)) - real_of_int (cell_level (snd (cells g ! i)))) * 0.9 * dt) \<and>
     real_of_int (cell_level (snd (cells g ! i))) \<le>
       stored_energy (snd (cells (update_energy_system g dt) ! i)) \<and>
     stored_energy (snd (cells (update_energy_system g dt) ! i)) \<le> stored_energy (snd (cells g ! i)) \<and>
     (stored_energy (snd (cells (update_energy_system g dt) ! i)) \<le>
        real_of_int (cell_level (snd (cells g ! i))) \<longleftrightarrow> 10 / 9 \<le> dt)"
proof -
  define c where "c = snd (cells g ! i)"
  define L where "L = real_of_int (cell_level c)"
  define E where "E = stored_energy c"
  have over: "L < E" using assms(3) by (simp add: c_def L_def E_def)
  then have nn: "\<not> needs_energy c" by (simp add: needs_energy_def L_def E_def)
  have u: "snd (cells (update_energy_system g dt) ! i) = bleed_off dt c"
    using update_energy_system_cell [OF assms(2)] nn by (simp add: c_def)
  have b: "bleed_off dt c = c\<lparr>stored_energy := max L (E - (E - L) * 0.9 * dt)\<rparr>"
    using over by (simp add: bleed_off_def Let_def L_def E_def)
  have pos: "0 \<le> (E - L) * 0.9 * dt" using over assms(1) by simp
  have iff: "(E - (E - L) * 0.9 * dt \<le> L) \<longleftrightarrow> 10 / 9 \<le> dt"
  proof -
    define d where "d = (E - L) * (0.9 * dt)"
    have "E - (E - L) * 0.9 * dt = E - d" by (simp add: d_def)
    then have "E - (E - L) * 0.9 * dt \<le> L \<longleftrightarrow> (E - L) * 1 \<le> d" by auto
    also have "\<dots> \<longleftrightarrow> 1 \<le> 0.9 * dt"
      unfolding d_def using over by (subst mult_le_cancel_left_pos) simp_all
    also have "\<dots> \<longleftrightarrow> 10 / 9 \<le> dt" by (simp add: field_simps)
    finally show ?thesis .
  qed
  define X where "X = E - (E - L) * 0.9 * dt"
  have bX: "bleed_off dt c = c\<lparr>stored_energy := max L X\<rparr>" using b by (simp add: X_def)
  have XE: "X \<le> E" using pos by (simp add: X_def)
  have XL: "X \<le> L \<longleftrightarrow> 10 / 9 \<le> dt" using iff by (simp only: X_def)
  have "cell_level (bleed_off dt c) = cell_level c \<and>
     stored_energy (bleed_off dt c) = max L X \<and>
     L \<le> stored_energy (bleed_off dt c) \<and> stored_energy (bleed_off dt c) \<le> E \<and>
     (stored_energy (bleed_off dt c) \<le> L \<longleftrightarrow> 10 / 9 \<le> dt)"
    unfolding bX using XE XL over by (auto simp: max_def)
  then show ?thesis unfolding X_def E_def L_def u c_def .
qed

text \<open>
  C4 as stated fails: with the game's fixed step \<open>dt = 1 / 60\<close>, a level-1 cell holding 2
  holds 1.985 after the tick, still above its level.
\<close>

theorem overflow_survives_a_tick:
  "map (\<lambda>(k, c). (k, cell_level c, stored_energy c)) (cells overfull_state) = [(1, 1, 2)] \<and>
   map (\<lambda>(k, c). (k, cell_level c, stored_energy c))
     (cells (update_energy_system overfull_state (1 / 60))) = [(1, 1, 1.985)] \<and>
   \<not> (1.985 \<le> real_of_int 1)"
  by (simp add: overfull_state_def update_energy_system_def transfer_to_cells_def
      bio_production_def dissipate_energy_def bleed_off_def GameState_init_def Resource_init_def
      Cell_init_def Let_def)

theorem overflow_bleeds_proportionally_witness:
  "(0::real) \<le> 1 / 60 \<and> (0::nat) < length (cells overfull_state) \<and>
   stored_energy (snd (cells overfull_state ! 0)) > real_of_int (cell_level (snd (cells overfull_state ! 0))) \<and>
   stored_energy (snd (cells (update_energy_system overfull_state (1 / 60)) ! 0)) = 1.985 \<and>
   stored_energy (snd (cells (update_energy_system overfull_state 2) ! 0)) = 1"
proof -
  have h1: "(0::real) \<le> 1 / 60" "(0::real) \<le> 2" by simp_all
  have h2: "0 < length (cells overfull_state)" by (simp add: overfull_state_def)
  have h3: "stored_energy (snd (cells overfull_state ! 0)) >
            real_of_int (cell_level (snd (cells overfull_state ! 0)))"
    by (simp add: overfull_state_def Cell_init_def)
  have v: "stored_energy (snd (cells overfull_state ! 0)) = 2"
     "cell_level (snd (cells overfull_state ! 0)) = 1"
    by (simp_all add: overfull_state_def Cell_init_def)
  show ?thesis
    using overflow_bleeds_proportionally [OF h1(1) h2 h3]
      overflow_bleeds_proportionally [OF h1(2) h2 h3] h2 h3
    by (simp add: v)
qed

section \<open>Admission refusals\<close>

text \<open>
  C10 as stated fails: \<open>Nano.enter_building\<close> does not look at the nano's own flags.
  Nano 4, inside the music hall (building 1), is admitted to the study (building 2) and
  is then on both occupant lists.
\<close>

theorem enter_second_building:
  "inside_building resident \<and> current_building resident = Some 1 \<and>
   map (\<lambda>(k, b). (k, workers b)) two_buildings = [(1, [4]), (2, []), (3, [7])] \<and>
   fst (enter_building resident 2 two_buildings) = True \<and>
   current_building (fst (snd (enter_building resident 2 two_buildings))) = Some 2 \<and>
   map (\<lambda>(k, b). (k, workers b)) (snd (snd (enter_building resident 2 two_buildings))) =
     [(1, [4]), (2, [4]), (3, [7])]"
  by (simp add: enter_building_def two_buildings_def resident_def Nano_init_def Building_init_def
      add_worker_def can_accept_worker_def)

lemma add_worker_refused: "fst (add_worker b i) = False \<Longrightarrow> snd (add_worker b i) = b"
  by (auto simp: add_worker_def split: if_splits)

lemma enter_building_refusal:
  "fst (enter_building n bid bs) = False \<longleftrightarrow>
     (case map_of bs bid of None \<Rightarrow> True
      | Some b \<Rightarrow> \<not> int (length (workers b)) < capacity b \<or> nano_id n \<in> set (workers b))"
  by (auto simp: enter_building_def add_worker_def can_accept_worker_def split: option.splits)

lemma enter_building_refused:
  "fst (enter_building n bid bs) = False \<Longrightarrow> enter_building n bid bs = (False, n, bs)"
  by (auto simp: enter_building_def split: option.splits prod.splits if_splits)

lemma try_enter_inside: "inside_building n \<Longrightarrow> try_enter n items bs = (n, bs)"
  by (induction items) (auto simp: Let_def)

text \<open>
  C10, as amended.  \<open>enter_building\<close> is refused exactly when the building id is not in
  the registry, or the occupant count is not below the capacity, or the nano's id is
  already on that building's list; in particular it is refused when the count equals the
  capacity.  A refused \<open>enter_building\<close> returns the nano and the registry as they were,
  and a refused \<open>add_worker\<close> the building as it was.  That the nano is not inside
  another building is tested by the caller: the entry loop of
  \<open>check_nano_building_interaction\<close> admits a nano whose \<open>inside_building\<close> flag is set
  nowhere and changes nothing.
\<close>

theorem admission_refusals:
  "(fst (enter_building n bid bs) = False \<longleftrightarrow>
      (case map_of bs bid of None \<Rightarrow> True
       | Some b \<Rightarrow> \<not> int (length (workers b)) < capacity b \<or> nano_id n \<in> set (workers b))) \<and>
   (fst (enter_building n bid bs) = False \<longrightarrow> enter_building n bid bs = (False, n, bs)) \<and>
   (map_of bs bid = Some b \<and> int (length (workers b)) = capacity b \<longrightarrow>
      enter_building n bid bs = (False, n, bs)) \<and>
   (fst (add_worker b i) = False \<longrightarrow> snd (add_worker b i) = b) \<and>
   (inside_building n \<longrightarrow> try_enter n items bs = (n, bs))"
proof -
  have full: "map_of bs bid = Some b \<and> int (length (workers b)) = capacity b \<longrightarrow>
      enter_building n bid bs = (False, n, bs)"
    using enter_building_refusal [of n bid bs] enter_building_refused [of n bid bs] by auto
  show ?thesis
    using enter_building_refusal [of n bid bs] enter_building_refused [of n bid bs] full
      add_worker_refused [of b i] try_enter_inside [of n items bs] by blast
qed

theorem admission_refusals_witness:
  "map_of two_buildings 3 = Some ((Building_init BIO 3 3)\<lparr>workers := [7], building_id := Some 3\<rparr>) \<and>
   int (length (workers ((Building_init BIO 3 3)\<lparr>workers := [7], building_id := Some 3\<rparr>))) =
     capacity ((Building_init BIO 3 3)\<lparr>workers := [7], building_id := Some 3\<rparr>) \<and>
   fst (enter_building (Nano_init 5 20 70 100) 3 two_buildings) = False \<and>
   enter_building (Nano_init 5 20 70 100) 3 two_buildings =
     (False, Nano_init 5 20 70 100, two_buildings) \<and>
   fst (add_worker ((Building_init BIO 3 3)\<lparr>workers := [7], building_id := Some 3\<rparr>) 5) = False \<and>
   inside_building resident \<and>
   try_enter resident two_buildings two_buildings = (resident, two_buildings)"
proof -
  let ?b = "(Building_init BIO 3 3)\<lparr>workers := [7], building_id := Some 3\<rparr>"
  have h1: "map_of two_buildings 3 = Some ?b" by (simp add: two_buildings_def)
  have h2: "int (length (workers ?b)) = capacity ?b" by (simp add: Building_init_def)
  have h3: "inside_building resident" by (simp add: resident_def)
  have h4: "fst (add_worker ?b 5) = False"
    by (simp add: add_worker_def can_accept_worker_def Building_init_def)
  from admission_refusals [of "Nano_init 5 20 70 100" 3 two_buildings ?b 5]
  have a: "enter_building (Nano_init 5 20 70 100) 3 two_buildings =
     (False, Nano_init 5 20 70 100, two_buildings)" using h1 h2 by blast
  from admission_refusals [of resident 3 two_buildings ?b 5 two_buildings]
  have b: "try_enter resident two_buildings two_buildings = (resident, two_buildings)"
    using h3 by blast
  show ?thesis using h1 h2 h3 h4 a b by simp
qed

section \<open>Death of old age\<close>

lemma minutes_loop_idle: "time_accumulator s < 1 \<Longrightarrow> minutes_loop s = s"
  by (subst minutes_loop.simps) simp

lemma old_front: "before_nanos old_nano_game (1 / 60) =
   old_nano_game\<lparr>state := (state old_nano_game)\<lparr>time_accumulator := 1 / 60\<rparr>\<rparr>"
  by (simp add: before_nanos_def update_time_def minutes_loop_idle update_energy_system_def
      transfer_to_cells_def bio_production_def dissipate_energy_def old_nano_game_def
      GameState_init_def Resource_init_def Building_init_def Let_def)

text \<open>
  C6.  The claim fails on the code: the death check of \<open>Game.update\<close> tests
  \<open>health \<le> 0\<close> only.  A nano of age 90 with a lifespan of 60, for which \<open>is_dead\<close>
  holds, is not put on the list of the dead by a tick; after the tick it is still in the
  collection and still on the occupant list of its tent.
\<close>

theorem old_nano_survives:
  "is_dead old_nano \<and> age old_nano \<ge> max_lifespan old_nano \<and>
   dead_nanos_of old_nano_game (1 / 60) = [] \<and>
   map fst (nanos (state (Game_update old_nano_game (1 / 60)))) = [1] \<and>
   map (\<lambda>(k, n). (age n, max_lifespan n, is_dead n)) (nanos (state (Game_update old_nano_game (1 / 60)))) =
     [(90, 60, True)] \<and>
   map (\<lambda>(k, b). (k, workers b)) (buildings (state (Game_update old_nano_game (1 / 60)))) = [(1, [1])]"
  apply (simp add: Game_update_def dead_nanos_of_def old_front nano_loop_def)
  apply (simp add: old_nano_game_def nano_round_def old_nano_def Nano_init_def is_dead_def
      update_position_def update_nano_ai_def check_nano_building_interaction_def try_exit_def
      exit_decision_def
      truthy_def handle_sleep_time_def assign_nano_home_def random_random_def
      GameState_init_def Building_init_def with_buildings_def Let_def)
  done

end
